theory Spec2Isabelle
  imports Complex_Main "HOL-Library.Sublist"
begin

section \<open>Pokepedia scraper: strings\<close>

text \<open>
  A Python \<open>str\<close> is modelled as a \<open>string\<close>; a \<open>char\<close> stands for the code point of the
  same number, so the model covers pages whose code points are below 256. Whitespace is
  what \<open>str.isspace\<close> accepts there.
\<close>

definition isspace :: "char \<Rightarrow> bool" where
  "isspace c = (of_char c \<in> {9, 10, 11, 12, 13, 28, 29, 30, 31, 32, 133, 160 :: nat})"

definition strip :: "string \<Rightarrow> string" where
  "strip s = rev (dropWhile isspace (rev (dropWhile isspace s)))"

text \<open>
  \<open>str.capitalize\<close> can leave that range: the capital of U+00B5 is U+039C, the one of
  U+00FF is U+0178. So its result, and with it every name of the roster, every URL and
  what the user types, is a list of code points; \<open>ustr\<close> gives the code points of a
  \<open>string\<close>. \<open>isupper\<close> is \<open>str.isupper\<close> of a character, on the code points below 256 and
  on these two.
\<close>

type_synonym ustring = "nat list"

definition ustr :: "string \<Rightarrow> ustring" where
  "ustr s = map of_char s"

definition isupper :: "nat \<Rightarrow> bool" where
  "isupper n = ((65 \<le> n \<and> n \<le> 90) \<or> (192 \<le> n \<and> n \<le> 222 \<and> n \<noteq> 215) \<or> n = 376 \<or> n = 924)"

text \<open>\<open>str.lower\<close> of a character below 256.\<close>

definition lower :: "char \<Rightarrow> char" where
  "lower c = (if isupper (of_char c) then char_of (of_char c + (32 :: nat)) else c)"

text \<open>
  The title case that \<open>str.capitalize\<close> gives to the first character: the capital of a
  letter that has one, two characters for U+00DF.
\<close>

definition titlecase :: "char \<Rightarrow> ustring" where
  "titlecase c =
     (let n = (of_char c :: nat)
      in if (97 \<le> n \<and> n \<le> 122) \<or> (224 \<le> n \<and> n \<le> 254 \<and> n \<noteq> 247) then [n - 32]
         else if n = 223 then [83, 115]
         else if n = 181 then [924]
         else if n = 255 then [376]
         else [n])"

text \<open>\<open>str.capitalize\<close>: the first character in title case, all the others in lower case.\<close>

fun capitalize :: "string \<Rightarrow> ustring" where
  "capitalize [] = []"
| "capitalize (c # cs) = titlecase c @ ustr (map lower cs)"

text \<open>
  \<open>str.replace(old, new)\<close> for a non-empty \<open>old\<close>: every occurrence, scanning from the
  left, occurrences not overlapping.
\<close>

fun replace :: "string \<Rightarrow> string \<Rightarrow> string \<Rightarrow> string" where
  "replace old new [] = []"
| "replace old new (c # cs) =
     (if old \<noteq> [] \<and> take (length old) (c # cs) = old
      then new @ replace old new (drop (length old - 1) cs)
      else c # replace old new cs)"

text \<open>\<open>sep.join(xs)\<close>.\<close>

fun join :: "string \<Rightarrow> string list \<Rightarrow> string" where
  "join sep [] = []"
| "join sep [x] = x"
| "join sep (x # y # ys) = x @ sep @ join sep (y # ys)"

text \<open>
  \<open>int(s)\<close> on a string that \<open>strip\<close> has trimmed: an optional sign, then decimal
  digits, where single underscores may stand between two digits. \<open>None\<close> is the
  \<open>ValueError\<close>; the interpreter also raises it when there are more digits than its limit
  for the conversion, 4300 unless configured otherwise.
\<close>

definition isdigit :: "char \<Rightarrow> bool" where
  "isdigit c = (48 \<le> (of_char c :: nat) \<and> (of_char c :: nat) \<le> 57)"

fun digits :: "nat \<Rightarrow> bool \<Rightarrow> string \<Rightarrow> nat option" where
  "digits acc prev [] = (if prev then Some acc else None)"
| "digits acc prev (c # cs) =
     (if isdigit c then digits (10 * acc + (of_char c - 48)) True cs
      else if c = CHR ''_'' \<and> prev then digits acc False cs
      else None)"

definition max_str_digits :: nat where
  "max_str_digits = 4300"

definition unsigned :: "string \<Rightarrow> int option" where
  "unsigned s =
     (if length (filter isdigit s) > max_str_digits then None
      else map_option int (digits 0 False s))"

fun py_int :: "string \<Rightarrow> int option" where
  "py_int [] = None"
| "py_int (c # cs) =
     (if c = CHR ''-'' then map_option uminus (unsigned cs)
      else if c = CHR ''+'' then unsigned cs
      else unsigned (c # cs))"

section \<open>The parse tree and the searches of BeautifulSoup\<close>

text \<open>
  \<open>BeautifulSoup(html, 'html.parser')\<close> is a library call that accepts every string; the
  model starts from the tree it builds. \<open>NavigableString\<close> is a piece of text, \<open>Comment\<close>
  stands for every string node that \<open>.text\<close> leaves out, and a \<open>Tag\<close> has a name, its
  attributes and its children. The value of \<open>class\<close> is kept as written and split at
  whitespace when it is matched, where the library stores the list of the classes.
\<close>

datatype node =
    NavigableString string
  | Comment string
  | Tag string "(string \<times> string) list" "node list"

text \<open>\<open>tag.descendants\<close>: every node below the tag, in document order.\<close>

fun descendants :: "node \<Rightarrow> node list" where
  "descendants (Tag n as cs) = concat (map (\<lambda>c. c # descendants c) cs)"
| "descendants (NavigableString s) = []"
| "descendants (Comment s) = []"

text \<open>\<open>tag.text\<close>: the text pieces below the tag, concatenated.\<close>

fun get_text :: "node \<Rightarrow> string" where
  "get_text (NavigableString s) = s"
| "get_text (Comment s) = []"
| "get_text (Tag n as cs) = concat (map get_text cs)"

text \<open>\<open>tag.string\<close>: the string of an only child, looked for recursively.\<close>

fun get_string :: "node \<Rightarrow> string option" where
  "get_string (NavigableString s) = Some s"
| "get_string (Comment s) = Some s"
| "get_string (Tag n as [c]) = get_string c"
| "get_string (Tag n as cs) = None"

fun is_tag :: "string \<Rightarrow> node \<Rightarrow> bool" where
  "is_tag name (Tag n as cs) = (n = name)"
| "is_tag name x = False"

fun attr :: "node \<Rightarrow> string \<Rightarrow> string option" where
  "attr (Tag n as cs) k = map_of as k"
| "attr x k = None"

text \<open>The pieces of a string between runs of whitespace, as the parser splits \<open>class\<close>.\<close>

fun split :: "string \<Rightarrow> string \<Rightarrow> string list" where
  "split cur [] = (if cur = [] then [] else [cur])"
| "split cur (c # cs) =
     (if isspace c then (if cur = [] then split [] cs else cur # split [] cs)
      else split (cur @ [c]) cs)"

definition has_class :: "string \<Rightarrow> node \<Rightarrow> bool" where
  "has_class cls x =
     (case attr x ''class'' of None \<Rightarrow> False
      | Some v \<Rightarrow> cls \<in> set (split [] v) \<or> join '' '' (split [] v) = cls)"

text \<open>
  A search gives the first node of a document-order list that matches, together with
  the nodes after it: these are its \<open>next_elements\<close>, where \<open>find_next\<close> looks.
\<close>

fun first_match :: "(node \<Rightarrow> bool) \<Rightarrow> node list \<Rightarrow> (node \<times> node list) option" where
  "first_match P [] = None"
| "first_match P (x # xs) = (if P x then Some (x, xs) else first_match P xs)"

definition find_first :: "node \<Rightarrow> (node \<Rightarrow> bool) \<Rightarrow> (node \<times> node list) option" where
  "find_first tag P = first_match P (descendants tag)"

definition find_all :: "node \<Rightarrow> (node \<Rightarrow> bool) \<Rightarrow> node list" where
  "find_all tag P = filter P (descendants tag)"

section \<open>Exceptions\<close>

text \<open>
  The exceptions the program can raise, by class. \<open>Exception\<close> is the one the program
  raises itself with that class, \<open>RequestException\<close> is a failure of \<open>requests.get\<close>,
  \<open>FileNotFoundError\<close> is what \<open>open\<close> raises when the directory of the path is not
  there, \<open>OSError\<close> any other failure of \<open>open\<close>.
\<close>

datatype exn =
    ValueError
  | AttributeError
  | UnboundLocalError
  | ZeroDivisionError
  | OverflowError
  | Exception
  | RequestException
  | FileNotFoundError
  | OSError

section \<open>parse\_html\<close>

text \<open>A dict with string keys keeps the order of insertion; assigning to a key that is there keeps its place.\<close>

fun dict_set :: "string \<Rightarrow> 'v \<Rightarrow> (string \<times> 'v) list \<Rightarrow> (string \<times> 'v) list" where
  "dict_set k v [] = [(k, v)]"
| "dict_set k v (p # ps) = (if fst p = k then (k, v) # ps else p # dict_set k v ps)"

text \<open>
  Lines 57 to 61. The result \<open>None\<close> is the local variable \<open>types\<close> left unassigned, when
  no \<open>th\<close> has the string \<open>Types\<close> or \<open>Type\<close>.
\<close>

definition types_label :: "node \<Rightarrow> bool" where
  "types_label x =
     (is_tag ''th'' x \<and>
      (case get_string x of None \<Rightarrow> False | Some t \<Rightarrow> t \<in> set [''Types'', ''Type'']))"

definition link_titles :: "node \<Rightarrow> string list" where
  "link_titles td =
     [replace '' (type)'' [] (the (attr a ''title'')).
        a \<leftarrow> find_all td (is_tag ''a''), attr a ''title'' \<noteq> None]"

definition extract_types :: "node \<Rightarrow> exn + string option" where
  "extract_types soup =
     (case find_first soup types_label of
        None \<Rightarrow> Inr None
      | Some (th, following) \<Rightarrow>
          (case first_match (is_tag ''td'') following of
             None \<Rightarrow> Inl AttributeError
           | Some (td, rest) \<Rightarrow> Inr (Some (join ''-'' (link_titles td)))))"

text \<open>
  Lines 64 and 65: \<open>soup.find('th', string=label).find_next('td').text.strip()\<close>. Each of
  the two searches can give \<open>None\<close>, and the attribute access on it raises.
\<close>

definition label_is :: "string \<Rightarrow> node \<Rightarrow> bool" where
  "label_is label x = (is_tag ''th'' x \<and> get_string x = Some label)"

definition labelled_cell :: "node \<Rightarrow> string \<Rightarrow> exn + string" where
  "labelled_cell soup label =
     (case find_first soup (label_is label) of
        None \<Rightarrow> Inl AttributeError
      | Some (th, following) \<Rightarrow>
          (case first_match (is_tag ''td'') following of
             None \<Rightarrow> Inl AttributeError
           | Some (td, rest) \<Rightarrow> Inr (strip (get_text td))))"

text \<open>Lines 69 to 85: the loop over the rows of the statistics table.\<close>

definition stat_link :: "node \<Rightarrow> bool" where
  "stat_link x = (is_tag ''a'' x \<and> attr x ''title'' = Some ''Statistique'')"

fun stats_rows :: "node list \<Rightarrow> (string \<times> int) list \<Rightarrow> exn + (string \<times> int) list" where
  "stats_rows [] stats = Inr stats"
| "stats_rows (row # rows) stats =
     (case find_first row stat_link of
        None \<Rightarrow> stats_rows rows stats
      | Some (stat_name_cell, following) \<Rightarrow>
          (let stat_name = strip (get_text stat_name_cell);
               columns = find_all row (is_tag ''td'')
           in if length columns \<ge> 2
              then (case py_int (strip (get_text (columns ! 1))) of
                      None \<Rightarrow> Inl ValueError
                    | Some stat_value \<Rightarrow> stats_rows rows (dict_set stat_name stat_value stats))
              else stats_rows rows stats))"

definition stats_anchor :: "node \<Rightarrow> bool" where
  "stats_anchor x = (is_tag ''span'' x \<and> attr x ''id'' = Some ''Statistiques'')"

definition standard_table :: "node \<Rightarrow> bool" where
  "standard_table x = (is_tag ''table'' x \<and> has_class ''tableaustandard'' x)"

definition extract_stats :: "node \<Rightarrow> exn + (string \<times> int) list" where
  "extract_stats soup =
     (case find_first soup stats_anchor of
        None \<Rightarrow> Inr []
      | Some (stats_section, following) \<Rightarrow>
          (case first_match standard_table following of
             None \<Rightarrow> Inr []
           | Some (stats_table, rest) \<Rightarrow> stats_rows (find_all stats_table (is_tag ''tr'')) []))"

text \<open>The dict that \<open>parse_html\<close> returns.\<close>

record pokemon_info =
  name :: string
  types :: string
  height :: string
  weight :: string
  stats :: "(string \<times> int) list"

text \<open>
  The function, in the order of its statements: the name (line 54), the types, the
  height, the weight, the statistics, and the dict of line 87, where reading \<open>types\<close>
  raises \<open>UnboundLocalError\<close> when no statement has assigned it.
\<close>

definition parse_html :: "node \<Rightarrow> exn + pokemon_info" where
  "parse_html soup =
     (case find_first soup (is_tag ''h1'') of
        None \<Rightarrow> Inl AttributeError
      | Some (h1, following) \<Rightarrow>
     (case extract_types soup of
        Inl e \<Rightarrow> Inl e
      | Inr types_var \<Rightarrow>
     (case labelled_cell soup ''Taille'' of
        Inl e \<Rightarrow> Inl e
      | Inr height_var \<Rightarrow>
     (case labelled_cell soup ''Poids'' of
        Inl e \<Rightarrow> Inl e
      | Inr weight_var \<Rightarrow>
     (case extract_stats soup of
        Inl e \<Rightarrow> Inl e
      | Inr stats_var \<Rightarrow>
     (case types_var of
        None \<Rightarrow> Inl UnboundLocalError
      | Some t \<Rightarrow>
          Inr \<lparr>name = strip (get_text h1), types = t, height = height_var,
               weight = weight_var, stats = stats_var\<rparr>))))))"

section \<open>The web and get\_html\_pokemon\<close>

text \<open>
  What the program does to the outside is kept in a record: \<open>web\<close> is what
  \<open>requests.get\<close> gives for a URL (an exception of the library, or a response with its
  status code and the parse tree of its text), \<open>requested\<close> the URLs asked so far,
  \<open>console\<close> what was printed, \<open>open_error\<close> the exception that \<open>open(file, 'w')\<close> raises
  for a path, if any (\<open>FileNotFoundError\<close> when the directory is not there), and
  \<open>csvfile\<close> the lines written to the file that was opened. Writing a line to an open
  file is taken not to fail.
\<close>

datatype response = Response int node

datatype ball = Pokeball | Superball | Hyperball | Masterball

datatype event =
    Fetching ustring
  | Parsed string
  | Error_writing ustring exn
  | Shown pokemon_info

datatype csv_line =
    Header "string list"
  | Row pokemon_info ball

record world =
  web :: "ustring \<Rightarrow> exn + response"
  requested :: "ustring list"
  console :: "event list"
  open_error :: "string \<Rightarrow> exn option"
  csvfile :: "csv_line list"

definition POKEPEDIA :: string where
  "POKEPEDIA = ''https://pokepedia.fr/''"

definition ordinal_url :: "string \<Rightarrow> string" where
  "ordinal_url stem =
     ''Liste_des_Pok'' @ [char_of (233 :: nat)] @ ''mon_de_la_'' @ stem @ [char_of (232 :: nat)]
       @ ''me_g'' @ [char_of (233 :: nat)] @ ''n'' @ [char_of (233 :: nat)] @ ''ration''"

definition GENERTAIONS_URL :: "(int \<times> string) list" where
  "GENERTAIONS_URL =
     [(1, ''Liste_des_Pok'' @ [char_of (233 :: nat)] @ ''mon_de_la_premi'' @ [char_of (232 :: nat)]
            @ ''re_g'' @ [char_of (233 :: nat)] @ ''n'' @ [char_of (233 :: nat)] @ ''ration''),
      (2, ordinal_url ''deuxi''),
      (3, ordinal_url ''troisi''),
      (4, ordinal_url ''quatri''),
      (5, ordinal_url ''cinqui''),
      (6, ordinal_url ''sixi''),
      (7, ordinal_url ''septi''),
      (8, ordinal_url ''huiti''),
      (9, ordinal_url ''neuvi'')]"

definition requests_get :: "ustring \<Rightarrow> world \<Rightarrow> (exn + response) \<times> world" where
  "requests_get url w = (web w url, w\<lparr>requested := requested w @ [url]\<rparr>)"

definition print :: "event \<Rightarrow> world \<Rightarrow> world" where
  "print ev w = w\<lparr>console := console w @ [ev]\<rparr>"

definition get_html_pokemon :: "ustring \<Rightarrow> world \<Rightarrow> (exn + node) \<times> world" where
  "get_html_pokemon pokemon_name w =
     (case requests_get (ustr POKEPEDIA @ pokemon_name) w of
        (Inl e, w') \<Rightarrow> (Inl e, w')
      | (Inr (Response status_code html), w') \<Rightarrow>
          if status_code = 200 then (Inr html, w')
          else if status_code = 404 then (Inl ValueError, w')
          else (Inl Exception, w'))"

section \<open>get\_pokemons\_from\_generation\<close>

definition titled_link :: "node \<Rightarrow> bool" where
  "titled_link x = (is_tag ''a'' x \<and> attr x ''title'' \<noteq> None)"

text \<open>The loop of lines 122 to 129 over the rows of the table.\<close>

fun pokemon_rows :: "node list \<Rightarrow> string list \<Rightarrow> string list" where
  "pokemon_rows [] pokemon_list = pokemon_list"
| "pokemon_rows (row # rows) pokemon_list =
     (let columns = find_all row (is_tag ''td'')
      in if length columns \<ge> 3
         then (case find_first (columns ! 2) titled_link of
                 None \<Rightarrow> pokemon_rows rows pokemon_list
               | Some (link, following) \<Rightarrow>
                   pokemon_rows rows (pokemon_list @ [strip (the (attr link ''title''))]))
         else pokemon_rows rows pokemon_list)"

definition get_pokemons_from_generation :: "int \<Rightarrow> world \<Rightarrow> (exn + ustring list) \<times> world" where
  "get_pokemons_from_generation generation w =
     (case map_of GENERTAIONS_URL generation of
        None \<Rightarrow> (Inl ValueError, w)
      | Some path \<Rightarrow>
          (case requests_get (ustr (POKEPEDIA @ path)) w of
             (Inl e, w') \<Rightarrow> (Inl e, w')
           | (Inr (Response status_code soup), w') \<Rightarrow>
               if status_code = 200
               then (case find_first soup standard_table of
                       None \<Rightarrow> (Inl Exception, w')
                     | Some (table, following) \<Rightarrow>
                         (Inr (map capitalize (pokemon_rows (find_all table (is_tag ''tr'')) [])), w'))
               else (Inl Exception, w')))"

section \<open>The average of the statistics and the ball\<close>

text \<open>
  \<open>sum(stats.values()) / len(stats)\<close> divides two integers into a float: the double
  nearest to the quotient, ties to the even one, and \<open>OverflowError\<close> when that is no
  finite double. \<open>exponent a b\<close> is the power of two at or below \<open>a / b\<close>; a double
  of that size is a multiple of the power of two 52 places below, and of \<open>2 powi - 1074\<close>
  at least.
\<close>

fun bit_length :: "nat \<Rightarrow> nat" where
  "bit_length n = (if n = 0 then 0 else Suc (bit_length (n div 2)))"

declare bit_length.simps [simp del]

definition exponent :: "nat \<Rightarrow> nat \<Rightarrow> int" where
  "exponent a b =
     (let e = int (bit_length a) - int (bit_length b)
      in if 2 powi e * real b \<le> real a then e else e - 1)"

definition round_half_even :: "real \<Rightarrow> int" where
  "round_half_even q =
     (let f = \<lfloor>q\<rfloor>
      in if q - of_int f < 1 / 2 then f
         else if 1 / 2 < q - of_int f then f + 1
         else if even f then f else f + 1)"

definition nearest_double :: "int \<Rightarrow> nat \<Rightarrow> real" where
  "nearest_double a b =
     (let ulp = 2 powi (max (exponent (nat \<bar>a\<bar>) b - 52) (- 1074))
      in of_int (round_half_even (of_int a / (of_nat b * ulp))) * ulp)"

definition truediv :: "int \<Rightarrow> nat \<Rightarrow> exn + real" where
  "truediv a b =
     (if b = 0 then Inl ZeroDivisionError
      else if 2 ^ 1024 \<le> \<bar>nearest_double a b\<bar> then Inl OverflowError
      else Inr (nearest_double a b))"

text \<open>Lines 162 to 166.\<close>

definition average_stats :: "(string \<times> int) list \<Rightarrow> exn + real" where
  "average_stats st =
     (if st \<noteq> [] then truediv (sum_list (map snd st)) (length st) else Inr 0)"

text \<open>
  Lines 169 to 176; the four constructors of \<open>ball\<close> are the strings \<open>Pokeball\<close> (with an
  acute accent on its \<open>e\<close>), \<open>Superball\<close>, \<open>Hyperball\<close> and \<open>Masterball\<close>.
\<close>

definition devis :: "real \<Rightarrow> ball" where
  "devis average =
     (if average \<le> 50 then Pokeball
      else if 50 < average \<and> average \<le> 100 then Superball
      else if 100 < average \<and> average \<le> 150 then Hyperball
      else Masterball)"

text \<open>Lines 162 to 176 together: the classification of the specification.\<close>

definition classify :: "(string \<times> int) list \<Rightarrow> exn + ball" where
  "classify st = (case average_stats st of Inl e \<Rightarrow> Inl e | Inr average \<Rightarrow> Inr (devis average))"

section \<open>create\_database and get\_pokemon\<close>

text \<open>
  The body of the \<open>try\<close> of lines 153 to 181 gives the line to write for one name, or
  the exception that the \<open>except\<close> of line 182 catches. What it prints is in
  \<open>write_row\<close>.
\<close>

definition fieldnames :: "string list" where
  "fieldnames = [''name'', ''types'', ''height'', ''weight'', ''stats'', ''devis'']"

definition write_row :: "ustring \<Rightarrow> world \<Rightarrow> world" where
  "write_row pokemon w =
     (case get_html_pokemon pokemon w of
        (Inl e, w1) \<Rightarrow> print (Error_writing pokemon e) w1
      | (Inr html, w1) \<Rightarrow>
          (let w2 = print (Fetching pokemon) w1
           in case parse_html html of
                Inl e \<Rightarrow> print (Error_writing pokemon e) w2
              | Inr pokemon_info \<Rightarrow>
                  (let w3 = print (Parsed (name pokemon_info)) w2
                   in case classify (stats pokemon_info) of
                        Inl e \<Rightarrow> print (Error_writing pokemon e) w3
                      | Inr d \<Rightarrow> w3\<lparr>csvfile := csvfile w3 @ [Row pokemon_info d]\<rparr>)))"

fun write_rows :: "ustring list \<Rightarrow> world \<Rightarrow> world" where
  "write_rows [] w = w"
| "write_rows (pokemon # all_pokemons) w = write_rows all_pokemons (write_row pokemon w)"

text \<open>\<open>str(n)\<close> of an integer, for the name of the file.\<close>

fun str_nat :: "nat \<Rightarrow> string" where
  "str_nat n = (if n < 10 then [char_of (48 + n)] else str_nat (n div 10) @ [char_of (48 + n mod 10)])"

declare str_nat.simps [simp del]

definition str_int :: "int \<Rightarrow> string" where
  "str_int i = (if i < 0 then CHR ''-'' # str_nat (nat (- i)) else str_nat (nat i))"

definition OUTPUT_DIR :: string where
  "OUTPUT_DIR = ''output''"

text \<open>The path of line 146: \<open>os.path.join\<close> puts a slash between its two parts.\<close>

definition output_file :: "int \<Rightarrow> string" where
  "output_file generation = OUTPUT_DIR @ ''/'' @ ''pokemon_GEN'' @ str_int generation @ ''.csv''"

text \<open>
  \<open>create_database\<close>: the roster, then \<open>open\<close>, which is outside the \<open>try\<close> and whose
  exception leaves the function, then the header and the loop.
\<close>

definition create_database :: "int \<Rightarrow> world \<Rightarrow> (exn + unit) \<times> world" where
  "create_database generation w =
     (case get_pokemons_from_generation generation w of
        (Inl e, w1) \<Rightarrow> (Inl e, w1)
      | (Inr all_pokemons, w1) \<Rightarrow>
          (case open_error w1 (output_file generation) of
             Some e \<Rightarrow> (Inl e, w1)
           | None \<Rightarrow>
               (Inr (), write_rows all_pokemons (w1\<lparr>csvfile := [Header fieldnames]\<rparr>))))"

text \<open>
  \<open>get_pokemon\<close> with the line the user types. Line 191 computes a trimmed, capitalized
  copy of it and drops it: the name is used as typed.
\<close>

definition get_pokemon :: "ustring \<Rightarrow> world \<Rightarrow> (exn + unit) \<times> world" where
  "get_pokemon pokemon w =
     (case get_html_pokemon pokemon w of
        (Inl e, w1) \<Rightarrow> (Inl e, w1)
      | (Inr html, w1) \<Rightarrow>
          (case parse_html html of
             Inl e \<Rightarrow> (Inl e, w1)
           | Inr pokemon_info \<Rightarrow> (Inr (), print (Shown pokemon_info) w1)))"

section \<open>What the loops compute, row by row\<close>

text \<open>
  The statements about the loops are made with these functions. A row of the listing is
  valid when it has three cells and the third holds a link with a title; \<open>row_name\<close> is
  that title, trimmed.
\<close>

definition valid_row :: "node \<Rightarrow> bool" where
  "valid_row row =
     (3 \<le> length (find_all row (is_tag ''td'')) \<and>
      find_first (find_all row (is_tag ''td'') ! 2) titled_link \<noteq> None)"

definition row_name :: "node \<Rightarrow> string" where
  "row_name row =
     strip (the (attr (fst (the (find_first (find_all row (is_tag ''td'') ! 2) titled_link))) ''title''))"

text \<open>
  What the docstring of \<open>get_pokemons_from_generation\<close> and the specification ask for:
  the name with its first letter capitalized, the other characters as they are.
\<close>

definition capitalize_first :: "string \<Rightarrow> ustring" where
  "capitalize_first t = (case t of [] \<Rightarrow> [] | c # cs \<Rightarrow> titlecase c @ ustr cs)"

text \<open>
  A row of the statistics table is marked when it holds a link titled \<open>Statistique\<close>. A
  marked row with two cells has an entry: the trimmed text of the link, and the integer
  read from the second cell, \<open>None\<close> when it is none.
\<close>

definition marked_row :: "node \<Rightarrow> bool" where
  "marked_row row = (find_first row stat_link \<noteq> None)"

definition stat_entry :: "node \<Rightarrow> (string \<times> int option) option" where
  "stat_entry row =
     (if marked_row row \<and> 2 \<le> length (find_all row (is_tag ''td''))
      then Some (strip (get_text (fst (the (find_first row stat_link)))),
                 py_int (strip (get_text (find_all row (is_tag ''td'') ! 1))))
      else None)"

text \<open>
  The table that lines 69 to 73 find: the first one of class \<open>tableaustandard\<close> after
  the \<open>span\<close> with the id \<open>Statistiques\<close>.
\<close>

definition stats_table :: "node \<Rightarrow> node option" where
  "stats_table soup =
     (case find_first soup stats_anchor of
        None \<Rightarrow> None
      | Some (stats_section, following) \<Rightarrow> map_option fst (first_match standard_table following))"

definition set_entry :: "(string \<times> int) list \<Rightarrow> string \<times> int option \<Rightarrow> (string \<times> int) list" where
  "set_entry st entry = dict_set (fst entry) (the (snd entry)) st"

definition entries :: "node list \<Rightarrow> (string \<times> int option) list" where
  "entries rows = [the (stat_entry row). row \<leftarrow> rows, stat_entry row \<noteq> None]"

text \<open>
  The line that the body of the \<open>try\<close> writes for one name, or the exception it raises,
  as a function of the web alone.
\<close>

definition row_for :: "(ustring \<Rightarrow> exn + response) \<Rightarrow> ustring \<Rightarrow> exn + csv_line" where
  "row_for net pokemon =
     (case net (ustr POKEPEDIA @ pokemon) of
        Inl e \<Rightarrow> Inl e
      | Inr (Response status_code html) \<Rightarrow>
          if status_code = 200
          then (case parse_html html of
                  Inl e \<Rightarrow> Inl e
                | Inr pokemon_info \<Rightarrow>
                    (case classify (stats pokemon_info) of
                       Inl e \<Rightarrow> Inl e
                     | Inr d \<Rightarrow> Inr (Row pokemon_info d)))
          else if status_code = 404 then Inl ValueError
          else Inl Exception)"

definition written :: "(ustring \<Rightarrow> exn + response) \<Rightarrow> ustring list \<Rightarrow> csv_line list" where
  "written net all_pokemons =
     concat (map (\<lambda>pokemon. case row_for net pokemon of Inl e \<Rightarrow> [] | Inr line \<Rightarrow> [line])
       all_pokemons)"

section \<open>Example pages\<close>

definition label_row :: "string \<Rightarrow> string \<Rightarrow> node" where
  "label_row label v =
     Tag ''tr'' [] [Tag ''th'' [] [NavigableString label], Tag ''td'' [] [NavigableString v]]"

definition type_link :: "string \<Rightarrow> node" where
  "type_link t = Tag ''a'' [(''href'', ''/type''), (''title'', t)] [Tag ''img'' [(''alt'', t)] []]"

definition types_row :: "string list \<Rightarrow> node" where
  "types_row ts = Tag ''tr'' [] [Tag ''th'' [] [NavigableString ''Types''], Tag ''td'' [] (map type_link ts)]"

definition stat_row :: "string \<times> string \<Rightarrow> node" where
  "stat_row nv =
     Tag ''tr'' []
       [Tag ''td'' [] [Tag ''a'' [(''title'', ''Statistique'')] [NavigableString (fst nv)]],
        Tag ''td'' [] [NavigableString (snd nv)]]"

definition stats_part :: "node list \<Rightarrow> node list" where
  "stats_part rows =
     [Tag ''h2'' [] [Tag ''span'' [(''id'', ''Statistiques'')] [NavigableString ''Statistiques'']],
      Tag ''table'' [(''class'', ''tableaustandard centre'')]
        (Tag ''tr'' [] [Tag ''th'' [(''colspan'', ''2'')] [NavigableString ''Statistiques de base'']]
         # rows)]"

definition pokemon_page :: "string \<Rightarrow> string list \<Rightarrow> (string \<times> string) list \<Rightarrow> node" where
  "pokemon_page title ts sts =
     Tag ''[document]'' []
       ([Tag ''h1'' [] [NavigableString title],
         Tag ''table'' [] [types_row ts, label_row ''Taille'' ''1,7 m'', label_row ''Poids'' ''90,5 kg'']]
        @ stats_part (map stat_row sts))"

definition dracaufeu_page :: node where
  "dracaufeu_page =
     pokemon_page '' Dracaufeu '' [''Feu (type)'', ''Vol (type)''] [(''PV'', ''78''), (''Attaque'', '' 84 '')]"

text \<open>A page with no \<open>Types\<close> or \<open>Type\<close> label, everything else in place.\<close>

definition untyped_page :: node where
  "untyped_page =
     Tag ''[document]'' []
       [Tag ''h1'' [] [NavigableString ''Dracaufeu''],
        Tag ''table'' [] [label_row ''Taille'' ''1,7 m'', label_row ''Poids'' ''90,5 kg'']]"

text \<open>A page whose heading has no text.\<close>

definition nameless_page :: node where
  "nameless_page = pokemon_page ''  '' [''Feu (type)''] []"

text \<open>A page with no heading at all.\<close>

definition headless_page :: node where
  "headless_page =
     Tag ''[document]'' []
       [Tag ''table'' [] [types_row [''Feu (type)''], label_row ''Taille'' ''1,7 m'', label_row ''Poids'' ''90,5 kg'']]"

text \<open>A page with no \<open>Taille\<close> label, and one with no \<open>Poids\<close> label.\<close>

definition no_height_page :: node where
  "no_height_page =
     Tag ''[document]'' []
       [Tag ''h1'' [] [NavigableString ''Dracaufeu''],
        Tag ''table'' [] [types_row [''Feu (type)''], label_row ''Poids'' ''90,5 kg'']]"

definition no_weight_page :: node where
  "no_weight_page =
     Tag ''[document]'' []
       [Tag ''h1'' [] [NavigableString ''Dracaufeu''],
        Tag ''table'' [] [types_row [''Feu (type)''], label_row ''Taille'' ''1,7 m'']]"

text \<open>A page with no statistics section.\<close>

definition no_stats_page :: node where
  "no_stats_page =
     Tag ''[document]'' []
       [Tag ''h1'' [] [NavigableString ''Dracaufeu''],
        Tag ''table'' [] [types_row [''Feu (type)''], label_row ''Taille'' ''1,7 m'', label_row ''Poids'' ''90,5 kg'']]"

text \<open>A statistics row that is marked and has a single cell, and a page with it.\<close>

definition short_row :: node where
  "short_row =
     Tag ''tr'' [] [Tag ''td'' [] [Tag ''a'' [(''title'', ''Statistique'')] [NavigableString ''PV''], NavigableString ''78'']]"

definition short_row_page :: node where
  "short_row_page =
     Tag ''[document]'' []
       ([Tag ''h1'' [] [NavigableString ''Dracaufeu''],
         Tag ''table'' [] [types_row [''Feu (type)''], label_row ''Taille'' ''1,7 m'', label_row ''Poids'' ''90,5 kg'']]
        @ stats_part [short_row])"

text \<open>A page with a statistic that is no integer, after one that is.\<close>

definition bad_stat_page :: node where
  "bad_stat_page = pokemon_page ''Dracaufeu'' [''Feu (type)''] [(''PV'', ''78''), (''Attaque'', ''8 4'')]"

text \<open>
  A listing: a row of header cells, a row with a single cell, and one row of three cells
  for each title.
\<close>

definition name_row :: "string \<Rightarrow> node" where
  "name_row title =
     Tag ''tr'' []
       [Tag ''td'' [] [NavigableString ''001''],
        Tag ''td'' [] [Tag ''img'' [(''alt'', title)] []],
        Tag ''td'' [] [Tag ''a'' [(''href'', ''/page''), (''title'', title)] [NavigableString title]]]"

definition listing_page :: "string list \<Rightarrow> node" where
  "listing_page titles =
     Tag ''[document]'' []
       [Tag ''h1'' [] [NavigableString ''Liste''],
        Tag ''table'' [(''class'', ''tableaustandard sortable'')]
          ([Tag ''tr'' [] [Tag ''th'' [] [NavigableString ''Num''], Tag ''th'' [] [NavigableString ''Nom'']],
            Tag ''tr'' [] [Tag ''td'' [(''colspan'', ''3'')] [NavigableString ''Kanto'']]]
           @ map name_row titles)]"

text \<open>
  A web for the first generation: a listing of five names, and the page of each title
  as the site writes it. A name in another spelling is not found.
\<close>

definition example_titles :: "string list" where
  "example_titles = [''bulbizarre'', '' Herbizarre'', ''Florizarre'', ''Ho-Oh'', ''Dracaufeu'']"

definition example_web :: "ustring \<Rightarrow> exn + response" where
  "example_web url =
     (if url = ustr (POKEPEDIA @ the (map_of GENERTAIONS_URL 1)) then Inr (Response 200 (listing_page example_titles))
      else if url = ustr (POKEPEDIA @ ''Bulbizarre'') then Inr (Response 200 (pokemon_page ''Bulbizarre'' [''Plante (type)'', ''Poison (type)''] [(''PV'', ''45''), (''Attaque'', ''49'')]))
      else if url = ustr (POKEPEDIA @ ''Herbizarre'') then Inr (Response 200 (pokemon_page ''Herbizarre'' [''Plante (type)'', ''Poison (type)''] [(''PV'', ''60''), (''Attaque'', ''62'')]))
      else if url = ustr (POKEPEDIA @ ''Florizarre'') then Inr (Response 200 (pokemon_page ''Florizarre'' [''Plante (type)'', ''Poison (type)''] [(''PV'', ''80''), (''Attaque'', ''82'')]))
      else if url = ustr (POKEPEDIA @ ''Ho-Oh'') then Inr (Response 200 (pokemon_page ''Ho-Oh'' [''Feu (type)'', ''Vol (type)''] [(''PV'', ''106''), (''Attaque'', ''130'')]))
      else if url = ustr (POKEPEDIA @ ''Dracaufeu'') then Inr (Response 200 dracaufeu_page)
      else if url = ustr (POKEPEDIA @ ''Sans_taille'') then Inr (Response 200 no_height_page)
      else Inr (Response 404 (Tag ''[document]'' [] [])))"

definition no_error :: "string \<Rightarrow> exn option" where
  "no_error path = None"

definition example_world :: world where
  "example_world =
     \<lparr>web = example_web, requested = [], console = [], open_error = no_error, csvfile = []\<rparr>"



text \<open>A web where every URL gives a listing of three titles.\<close>

definition listing_web :: "ustring \<Rightarrow> exn + response" where
  "listing_web url = Inr (Response 200 (listing_page [''bulbizarre'', '' Herbizarre'', ''Ho-Oh'']))"

definition listing_world :: world where
  "listing_world =
     \<lparr>web = listing_web, requested = [], console = [], open_error = no_error, csvfile = []\<rparr>"

section \<open>The division into a float\<close>

text \<open>
  The exponent is the right one, rounding is symmetric and to a nearest integer, and the
  division overflows exactly from the midpoint between the largest double and
  \<open>2 ^ 1024\<close> on.
\<close>

lemma bit_length_bounds:
  "0 < n \<Longrightarrow> 2 ^ (bit_length n - 1) \<le> n \<and> n < 2 ^ bit_length n"
proof (induction n rule: bit_length.induct)
  case (1 n)
  show ?case
  proof (cases "n div 2 = 0")
    case True
    with 1 have "n = 1" by (auto simp: div_eq_0_iff)
    then show ?thesis by (simp add: bit_length.simps)
  next
    case False
    then have pos: "0 < n div 2" by simp
    from 1 have n0: "n \<noteq> 0" by simp
    from 1(1)[OF n0 pos] have ih: "2 ^ (bit_length (n div 2) - 1) \<le> n div 2" "n div 2 < 2 ^ bit_length (n div 2)"
      by auto
    have bl: "bit_length n = Suc (bit_length (n div 2))" using n0 by (subst bit_length.simps) simp
    have blpos: "0 < bit_length (n div 2)" using pos by (subst bit_length.simps) simp
    have "2 ^ (bit_length n - 1) = 2 * 2 ^ (bit_length (n div 2) - 1)"
      using bl blpos by (cases "bit_length (n div 2)") auto
    also have "\<dots> \<le> 2 * (n div 2)" using ih(1) by simp
    also have "\<dots> \<le> n" by simp
    finally have a: "2 ^ (bit_length n - 1) \<le> n" .
    have "n < 2 * (n div 2) + 2" by presburger
    also have "\<dots> \<le> 2 * 2 ^ bit_length (n div 2)" using ih(2) by simp
    finally have b: "n < 2 ^ bit_length n" using bl by simp
    from a b show ?thesis by simp
  qed
qed

lemma rhe_near: "\<bar>q - of_int (round_half_even q)\<bar> \<le> 1 / 2"
  unfolding round_half_even_def Let_def by (auto simp: abs_if) linarith+

lemma rhe_below: "q < of_int N - 1 / 2 \<Longrightarrow> round_half_even q \<le> N - 1"
  unfolding round_half_even_def Let_def by (auto split: if_splits) linarith+

lemma rhe_mono_int: "of_int N \<le> q \<Longrightarrow> N \<le> round_half_even q"
  unfolding round_half_even_def Let_def by (auto split: if_splits) linarith+

lemma rhe_le_int: "q \<le> of_int N \<Longrightarrow> round_half_even q \<le> N"
  unfolding round_half_even_def Let_def by (auto split: if_splits) linarith+

lemma rhe_above: "of_int N - 1 / 2 \<le> q \<Longrightarrow> even N \<Longrightarrow> N \<le> round_half_even q"
proof -
  assume a: "of_int N - 1 / 2 \<le> q" and ev: "even N"
  have f: "of_int \<lfloor>q\<rfloor> \<le> q" "q < of_int \<lfloor>q\<rfloor> + 1" by linarith+
  have "N - 1 \<le> \<lfloor>q\<rfloor>" using a by linarith
  then consider "\<lfloor>q\<rfloor> = N - 1" | "N \<le> \<lfloor>q\<rfloor>" by linarith
  then show ?thesis
  proof cases
    case 1
    then have "odd \<lfloor>q\<rfloor>" using ev by simp
    moreover have "\<not> q - of_int \<lfloor>q\<rfloor> < 1 / 2" using a 1 by simp
    ultimately show ?thesis unfolding round_half_even_def Let_def using 1 by auto
  next
    case 2
    then show ?thesis unfolding round_half_even_def Let_def by auto
  qed
qed

lemma rhe_minus: "round_half_even (- q) = - round_half_even q"
proof (cases "q = of_int \<lfloor>q\<rfloor>")
  case True
  then obtain k where k: "q = of_int k" by blast
  have "- q = of_int (- k)" using k by simp
  then have "round_half_even (- q) = - k"
    unfolding round_half_even_def Let_def by (simp only: floor_of_int) simp
  moreover have "round_half_even q = k"
    unfolding round_half_even_def Let_def k by simp
  ultimately show ?thesis by simp
next
  case False
  then have fl: "\<lfloor>- q\<rfloor> = - \<lfloor>q\<rfloor> - 1"
    by linarith
  have fr: "- q - of_int \<lfloor>- q\<rfloor> = 1 - (q - of_int \<lfloor>q\<rfloor>)" using fl by simp
  show ?thesis
    unfolding round_half_even_def Let_def fr unfolding fl by auto
qed

lemma p2_diff: "(2::real) powi (int m - int n) = 2 ^ m / 2 ^ n"
  by (simp add: power_int_diff)

lemma p2_pos: "0 < (2::real) powi k"
  by (simp add: zero_less_power_int)

lemma p2_mono: "k \<le> l \<Longrightarrow> (2::real) powi k \<le> 2 powi l"
  by (rule power_int_increasing) simp_all

lemma p2_less_imp: "(2::real) powi k < 2 powi l \<Longrightarrow> k < l"
  using p2_mono [of l k] by (cases "k < l") auto

lemma exponent_bounds:
  assumes "0 < a" "0 < b"
  shows "2 powi exponent a b \<le> real a / real b \<and> real a / real b < 2 powi (exponent a b + 1)"
proof -
  define e where "e = int (bit_length a) - int (bit_length b)"
  have ba: "2 ^ (bit_length a - 1) \<le> a" "a < 2 ^ bit_length a"
    using bit_length_bounds [OF assms(1)] by auto
  have bb: "2 ^ (bit_length b - 1) \<le> b" "b < 2 ^ bit_length b"
    using bit_length_bounds [OF assms(2)] by auto
  have pa: "0 < bit_length a" using assms(1) by (subst bit_length.simps) simp
  have pb: "0 < bit_length b" using assms(2) by (subst bit_length.simps) simp
  have rb: "0 < real b" using assms(2) by simp
  have ra1: "(2::real) ^ (bit_length a - 1) \<le> real a"
    using ba(1) by (metis of_nat_le_iff of_nat_numeral of_nat_power)
  have ra2: "real a < 2 ^ bit_length a"
    using ba(2) by (metis of_nat_less_iff of_nat_numeral of_nat_power)
  have rb1: "(2::real) ^ (bit_length b - 1) \<le> real b"
    using bb(1) by (metis of_nat_le_iff of_nat_numeral of_nat_power)
  have rb2: "real b < 2 ^ bit_length b"
    using bb(2) by (metis of_nat_less_iff of_nat_numeral of_nat_power)
  have up: "real a < 2 powi (e + 1) * real b"
  proof -
    have "2 powi (e + 1) = (2::real) ^ bit_length a / 2 ^ (bit_length b - 1)"
      using p2_diff [of "bit_length a" "bit_length b - 1"] pb
      by (simp add: e_def of_nat_diff algebra_simps)
    then have "2 ^ bit_length a = 2 powi (e + 1) * (2::real) ^ (bit_length b - 1)"
      by simp
    also have "\<dots> \<le> 2 powi (e + 1) * real b"
      using rb1 p2_pos [of "e + 1"] by (intro mult_left_mono) simp_all
    finally show ?thesis using ra2 by linarith
  qed
  have lo: "2 powi (e - 1) * real b \<le> real a"
  proof -
    have "2 powi (e - 1) = (2::real) ^ (bit_length a - 1) / 2 ^ bit_length b"
      using p2_diff [of "bit_length a - 1" "bit_length b"] pa
      by (simp add: e_def of_nat_diff algebra_simps)
    then have "(2::real) ^ (bit_length a - 1) = 2 powi (e - 1) * 2 ^ bit_length b"
      by simp
    moreover have "2 powi (e - 1) * real b \<le> 2 powi (e - 1) * 2 ^ bit_length b"
      using rb2 p2_pos [of "e - 1"] by (intro mult_left_mono) simp_all
    ultimately show ?thesis using ra1 by linarith
  qed
  show ?thesis
  proof (cases "2 powi e * real b \<le> real a")
    case True
    then have "exponent a b = e" by (simp add: exponent_def e_def)
    then show ?thesis using True up rb by (simp add: field_simps)
  next
    case False
    then have ex: "exponent a b = e - 1" by (simp add: exponent_def e_def Let_def)
    have "2 powi (e - 1) \<le> real a / real b" using lo rb by (simp add: field_simps)
    moreover have "real a / real b < 2 powi e" using False rb by (simp add: field_simps)
    ultimately show ?thesis unfolding ex by simp
  qed
qed

lemma nearest_double_nonneg: "0 \<le> a \<Longrightarrow> 0 \<le> nearest_double a b"
proof -
  assume a: "0 \<le> a"
  have "0 \<le> round_half_even (of_int a / (of_nat b * 2 powi (max (exponent (nat \<bar>a\<bar>) b - 52) (- 1074))))"
    using a by (intro rhe_mono_int) (simp add: p2_pos less_imp_le)
  then show ?thesis
    unfolding nearest_double_def Let_def by (simp add: p2_pos less_imp_le)
qed

lemma nearest_double_minus: "nearest_double (- a) b = - nearest_double a b"
  unfolding nearest_double_def Let_def by (simp add: rhe_minus)

lemma nearest_double_abs: "\<bar>nearest_double a b\<bar> = nearest_double \<bar>a\<bar> b"
proof (cases "0 \<le> a")
  case True
  then show ?thesis using nearest_double_nonneg [of a b] by simp
next
  case False
  then have "\<bar>a\<bar> = - a" by simp
  moreover have "nearest_double a b \<le> 0"
    using nearest_double_nonneg [of "- a" b] False by (simp add: nearest_double_minus)
  ultimately show ?thesis by (simp add: nearest_double_minus)
qed

lemma nearest_double_overflow:
  assumes b: "0 < b" and a: "0 \<le> a"
  shows "2 ^ 1024 \<le> nearest_double a b \<longleftrightarrow> (2 ^ 1024 - 2 ^ 970) * real b \<le> of_int a"
proof -
  define M where "M = (2::real) ^ 1024"
  define T where "T = (2::real) ^ 1024 - 2 ^ 970"
  define U where "U = (2::real) powi 971"
  define H where "H = (2::real) powi 1023"
  have Tpos: "0 < T" by (simp add: T_def)
  have HT: "H \<le> T" by (simp add: T_def H_def)
  have TM: "T < M" by (simp add: T_def M_def)
  have M1024: "M = 2 powi 1024" by (simp add: M_def)
  have MU: "M = 2 ^ 53 * U" by (simp add: M_def U_def)
  have TU: "T = (of_int (2 ^ 53) - 1 / 2) * U" by (simp add: T_def U_def)
  have HM: "H + 2 powi 970 / 2 < M" by (simp add: H_def M_def)
  have Upos: "0 < U" unfolding U_def by (rule p2_pos)
  have rb: "0 < real b" using b by simp
  have main: "M \<le> nearest_double a b \<longleftrightarrow> T * real b \<le> of_int a"
  proof (cases "a = 0")
    case True
    have "nearest_double 0 b = 0" by (simp add: nearest_double_def round_half_even_def)
    moreover have "0 < T * real b" using Tpos rb by (rule mult_pos_pos)
    moreover have "0 < M" using Tpos TM by linarith
    ultimately show ?thesis using True by simp
  next
    case False
    with a have apos: "0 < a" by simp
    define x where "x = real_of_int a / real b"
    define e where "e = exponent (nat \<bar>a\<bar>) b"
    define u where "u = (2::real) powi (max (e - 52) (- 1074))"
    define m where "m = round_half_even (x / u)"
    have upos: "0 < u" unfolding u_def by (rule p2_pos)
    have nd: "nearest_double a b = of_int m * u"
      by (simp add: nearest_double_def Let_def m_def u_def e_def x_def mult.commute)
    have "real (nat \<bar>a\<bar>) = of_int a" using apos by simp
    then have eb: "2 powi e \<le> x" "x < 2 powi (e + 1)"
      using exponent_bounds [of "nat \<bar>a\<bar>" b] apos b by (simp_all add: e_def x_def)
    have rhs: "T * real b \<le> of_int a \<longleftrightarrow> T \<le> x"
      unfolding x_def using rb by (simp only: pos_le_divide_eq)
    have near: "\<bar>x / u - of_int m\<bar> \<le> 1 / 2" unfolding m_def by (rule rhe_near)
    have xu: "x / u * u = x" using upos by simp
    show ?thesis
    proof (cases "T \<le> x")
      case True
      have "H < 2 powi (e + 1)" using True eb(2) HT by linarith
      then have e1023: "1023 \<le> e" using p2_less_imp [of 1023 "e + 1"] unfolding H_def by linarith
      have big: "M \<le> of_int m * u"
      proof (cases "e = 1023")
        case True
        then have u: "u = U" by (simp add: u_def U_def)
        have "(of_int (2 ^ 53) - 1 / 2) * u \<le> x" using \<open>T \<le> x\<close> TU u by simp
        then have "of_int (2 ^ 53) - 1 / 2 \<le> x / u" using upos by (simp only: pos_le_divide_eq)
        then have "2 ^ 53 \<le> m" unfolding m_def by (intro rhe_above) simp_all
        then have "real_of_int (2 ^ 53) \<le> of_int m" by (simp only: of_int_le_iff)
        then have "(2::real) ^ 53 \<le> of_int m" by simp
        then have "(2::real) ^ 53 * u \<le> of_int m * u"
          using upos by (intro mult_right_mono) simp_all
        then show ?thesis using MU u by simp
      next
        case False
        with e1023 have e1024: "1024 \<le> e" by simp
        then have u: "u = 2 powi (e - 52)" by (simp add: u_def max_def)
        have eq: "2 powi e = (2::real) ^ 52 * u"
          using power_int_add [of "2::real" 52 "e - 52"] unfolding u by simp
        then have "of_int (2 ^ 52) * u \<le> x" using eb(1) by simp
        then have "of_int (2 ^ 52) \<le> x / u" using upos by (simp only: pos_le_divide_eq)
        then have "2 ^ 52 \<le> m" unfolding m_def by (rule rhe_mono_int)
        then have "real_of_int (2 ^ 52) \<le> of_int m" by (simp only: of_int_le_iff)
        then have "(2::real) ^ 52 \<le> of_int m" by simp
        then have "(2::real) ^ 52 * u \<le> of_int m * u"
          using upos by (intro mult_right_mono) simp_all
        moreover have "(2::real) powi 1024 \<le> 2 powi e" using e1024 by (rule p2_mono)
        ultimately show ?thesis using eq M1024 by linarith
      qed
      then show ?thesis using True nd rhs by simp
    next
      case False
      then have xlt: "x < T" by simp
      have "(2::real) powi e < 2 powi 1024" using xlt eb(1) TM M1024 by linarith
      then have e1023: "e \<le> 1023" using p2_less_imp [of e 1024] by linarith
      have small: "of_int m * u < M"
      proof (cases "e = 1023")
        case True
        then have u: "u = U" by (simp add: u_def U_def)
        have "x < (of_int (2 ^ 53) - 1 / 2) * u" using xlt TU u by simp
        then have "x / u < of_int (2 ^ 53) - 1 / 2" using upos by (simp only: pos_divide_less_eq)
        then have "m \<le> 2 ^ 53 - 1" unfolding m_def by (rule rhe_below)
        then have "real_of_int m \<le> of_int (2 ^ 53 - 1)" by (simp only: of_int_le_iff)
        then have "of_int m \<le> (2::real) ^ 53 - 1" by simp
        then have "of_int m * u \<le> ((2::real) ^ 53 - 1) * u"
          using upos by (intro mult_right_mono) simp_all
        moreover have "((2::real) ^ 53 - 1) * u < M" unfolding u MU using Upos by simp
        ultimately show ?thesis by linarith
      next
        case False
        with e1023 have e1022: "e \<le> 1022" by simp
        then have "max (e - 52) (- 1074) \<le> 970" by simp
        then have "u \<le> 2 powi 970" unfolding u_def by (rule p2_mono)
        moreover have "(2::real) powi (e + 1) \<le> H"
          unfolding H_def using e1022 by (intro p2_mono) simp
        moreover have "of_int m \<le> x / u + 1 / 2" using near by linarith
        then have "of_int m * u \<le> (x / u + 1 / 2) * u"
          using upos by (intro mult_right_mono) simp_all
        moreover have "(x / u + 1 / 2) * u = x + u / 2" using xu by (simp only: distrib_right)
        ultimately show ?thesis using eb(2) HM by linarith
      qed
      then show ?thesis using False nd rhs by simp
    qed
  qed
  then show ?thesis by (simp only: M_def T_def)
qed

lemma truediv_overflow:
  assumes "0 < b"
  shows "truediv a b = Inl OverflowError \<longleftrightarrow> (2 ^ 1024 - 2 ^ 970) * real b \<le> \<bar>of_int a\<bar>"
proof -
  have "2 ^ 1024 \<le> \<bar>nearest_double a b\<bar> \<longleftrightarrow> (2 ^ 1024 - 2 ^ 970) * real b \<le> of_int \<bar>a\<bar>"
    unfolding nearest_double_abs using assms by (intro nearest_double_overflow) simp_all
  then show ?thesis using assms by (simp add: truediv_def)
qed

section \<open>Classification\<close>

text \<open>
  C1, as the code has it. For every statistics mapping that is empty, or whose values add
  up to less in absolute value than \<open>2 ^ 1024 - 2 ^ 970\<close> times their number, the
  classification returns a ball: the average is 0 for the empty mapping and else the
  double nearest to the sum divided by the number of values, and the ball is Pokeball for
  an average of at most 50, Superball above 50 and up to 100, Hyperball above 100 and up
  to 150, Masterball above 150. The empty mapping and a single value of 50 give Pokeball,
  51 gives Superball, 150 Hyperball and 151 Masterball.
\<close>

theorem classify_by_average:
  assumes "st \<noteq> [] \<Longrightarrow>
             \<bar>real_of_int (sum_list (map snd st))\<bar> < (2 ^ 1024 - 2 ^ 970) * real (length st)"
  shows "(\<exists>avg. average_stats st = Inr avg \<and>
            avg = (if st = [] then 0 else nearest_double (sum_list (map snd st)) (length st)) \<and>
            (avg \<le> 50 \<longrightarrow> classify st = Inr Pokeball) \<and>
            (50 < avg \<and> avg \<le> 100 \<longrightarrow> classify st = Inr Superball) \<and>
            (100 < avg \<and> avg \<le> 150 \<longrightarrow> classify st = Inr Hyperball) \<and>
            (150 < avg \<longrightarrow> classify st = Inr Masterball)) \<and>
         classify [] = Inr Pokeball \<and>
         classify [(''hp'', 50)] = Inr Pokeball \<and>
         classify [(''hp'', 51)] = Inr Superball \<and>
         classify [(''hp'', 150)] = Inr Hyperball \<and>
         classify [(''hp'', 151)] = Inr Masterball"
proof -
  have general: "\<exists>avg. average_stats st = Inr avg \<and>
            avg = (if st = [] then 0 else nearest_double (sum_list (map snd st)) (length st)) \<and>
            (avg \<le> 50 \<longrightarrow> classify st = Inr Pokeball) \<and>
            (50 < avg \<and> avg \<le> 100 \<longrightarrow> classify st = Inr Superball) \<and>
            (100 < avg \<and> avg \<le> 150 \<longrightarrow> classify st = Inr Hyperball) \<and>
            (150 < avg \<longrightarrow> classify st = Inr Masterball)"
  proof (cases "st = []")
    case True
    then show ?thesis by (simp add: average_stats_def classify_def devis_def)
  next
    case False
    then have len: "0 < length st" by simp
    from assms [OF False] have "\<not> (2 ^ 1024 - 2 ^ 970) * real (length st) \<le> \<bar>real_of_int (sum_list (map snd st))\<bar>"
      by (simp only: not_le)
    then have "truediv (sum_list (map snd st)) (length st) \<noteq> Inl OverflowError"
      using truediv_overflow [OF len, of "sum_list (map snd st)"] by blast
    then have "truediv (sum_list (map snd st)) (length st)
                 = Inr (nearest_double (sum_list (map snd st)) (length st))"
      using len by (simp add: truediv_def split: if_splits)
    then have avg: "average_stats st = Inr (nearest_double (sum_list (map snd st)) (length st))"
      using False by (simp add: average_stats_def)
    show ?thesis
      unfolding avg classify_def using False by (simp add: devis_def)
  qed
  have n1: "nearest_double 50 (Suc 0) = 50" by code_simp
  have n2: "nearest_double 51 (Suc 0) = 51" by code_simp
  have n3: "nearest_double 150 (Suc 0) = 150" by code_simp
  have n4: "nearest_double 151 (Suc 0) = 151" by code_simp
  have e0: "classify [] = Inr Pokeball"
    by (simp add: classify_def average_stats_def devis_def)
  have e1: "classify [(''hp'', 50)] = Inr Pokeball"
    by (simp add: classify_def average_stats_def truediv_def n1 devis_def)
  have e2: "classify [(''hp'', 51)] = Inr Superball"
    by (simp add: classify_def average_stats_def truediv_def n2 devis_def)
  have e3: "classify [(''hp'', 150)] = Inr Hyperball"
    by (simp add: classify_def average_stats_def truediv_def n3 devis_def)
  have e4: "classify [(''hp'', 151)] = Inr Masterball"
    by (simp add: classify_def average_stats_def truediv_def n4 devis_def)
  from general e0 e1 e2 e3 e4 show ?thesis by (intro conjI)
qed

text \<open>Four mappings within the bound, one for each ball.\<close>

theorem classify_by_average_witness:
  "classify [(''PV'', 45), (''Attaque'', 49)] = Inr Pokeball \<and>
   classify [(''PV'', 78), (''Attaque'', 84)] = Inr Superball \<and>
   classify [(''PV'', 100), (''Attaque'', 101), (''Vitesse'', 100)] = Inr Hyperball \<and>
   classify [(''PV'', 255), (''Attaque'', 191)] = Inr Masterball"
proof -
  have n1: "nearest_double 94 (Suc (Suc 0)) = 47" by code_simp
  have n2: "nearest_double 162 (Suc (Suc 0)) = 81" by code_simp
  have n3: "100 < nearest_double 301 (Suc (Suc (Suc 0))) \<and> nearest_double 301 (Suc (Suc (Suc 0))) \<le> 150"
    by code_simp
  have n4: "nearest_double 446 (Suc (Suc 0)) = 223" by code_simp
  have c1: "classify [(''PV'', 45), (''Attaque'', 49)] = Inr Pokeball"
    using classify_by_average [of "[(''PV'', 45), (''Attaque'', 49)]"] by (simp add: n1)
  have c2: "classify [(''PV'', 78), (''Attaque'', 84)] = Inr Superball"
    using classify_by_average [of "[(''PV'', 78), (''Attaque'', 84)]"] by (simp add: n2)
  have c3: "classify [(''PV'', 100), (''Attaque'', 101), (''Vitesse'', 100)] = Inr Hyperball"
    using classify_by_average [of "[(''PV'', 100), (''Attaque'', 101), (''Vitesse'', 100)]"] n3
    by simp
  have c4: "classify [(''PV'', 255), (''Attaque'', 191)] = Inr Masterball"
    using classify_by_average [of "[(''PV'', 255), (''Attaque'', 191)]"] by (simp add: n4)
  from c1 c2 c3 c4 show ?thesis by (intro conjI)
qed

text \<open>
  C1 as stated fails: the classification is not total. A single value of \<open>2 ^ 1024\<close>,
  which \<open>int\<close> reads from 309 digits, makes the division raise \<open>OverflowError\<close>.
\<close>

theorem classify_overflow_counterexample:
  "classify [(''hp'', 2 ^ 1024)] = Inl OverflowError"
proof -
  have "truediv (2 ^ 1024) 1 = Inl OverflowError"
    using truediv_overflow [of 1 "2 ^ 1024"] by simp
  then show ?thesis by (simp add: classify_def average_stats_def)
qed

section \<open>The record parser\<close>

text \<open>
  C3 asks that a page without a \<open>Types\<close> or \<open>Type\<close> label gives a record with empty
  types. The code does not: on every such page \<open>parse_html\<close> raises, and when the
  heading, the height, the weight and the statistics are all read without an exception,
  it raises \<open>UnboundLocalError\<close> at line 89, where \<open>types\<close> was never assigned.
\<close>

theorem parse_html_without_types_label:
  assumes "find_first soup types_label = None"
  shows "(\<forall>r. parse_html soup \<noteq> Inr r) \<and>
         (find_first soup (is_tag ''h1'') \<noteq> None \<and>
          (\<exists>h. labelled_cell soup ''Taille'' = Inr h) \<and>
          (\<exists>wt. labelled_cell soup ''Poids'' = Inr wt) \<and>
          (\<exists>st. extract_stats soup = Inr st)
          \<longrightarrow> parse_html soup = Inl UnboundLocalError)"
proof -
  have ty: "extract_types soup = Inr None"
    using assms by (simp add: extract_types_def)
  show ?thesis
    unfolding parse_html_def ty
    by (auto split: option.splits sum.splits prod.splits)
qed

text \<open>The page with a heading, a height and a weight and no types label.\<close>

theorem parse_html_without_types_label_witness:
  "find_first untyped_page types_label = None \<and>
   parse_html untyped_page = Inl UnboundLocalError"
proof -
  have h: "find_first untyped_page types_label = None" by code_simp
  have h1: "find_first untyped_page (is_tag ''h1'') \<noteq> None" by code_simp
  have t: "labelled_cell untyped_page ''Taille'' = Inr ''1,7 m''" by code_simp
  have p: "labelled_cell untyped_page ''Poids'' = Inr ''90,5 kg''" by code_simp
  have s: "extract_stats untyped_page = Inr []" by code_simp
  from parse_html_without_types_label [OF h] h1 t p s
  have "parse_html untyped_page = Inl UnboundLocalError" by blast
  with h show ?thesis by simp
qed

text \<open>
  C4, as the code has it. Without an \<open>h1\<close> element \<open>parse_html\<close> raises
  \<open>AttributeError\<close>; a record it returns has for name the trimmed text of the first
  \<open>h1\<close>, whatever that is.
\<close>

theorem parse_html_name:
  "(find_first soup (is_tag ''h1'') = None \<longrightarrow> parse_html soup = Inl AttributeError) \<and>
   (\<forall>r. parse_html soup = Inr r \<longrightarrow>
      (\<exists>h1 following. find_first soup (is_tag ''h1'') = Some (h1, following) \<and>
         name r = strip (get_text h1)))"
  unfolding parse_html_def
  by (auto split: option.splits sum.splits prod.splits)

text \<open>A page with no heading, and the page of Dracaufeu.\<close>

theorem parse_html_name_witness:
  "find_first headless_page (is_tag ''h1'') = None \<and>
   parse_html headless_page = Inl AttributeError \<and>
   map_sum id name (parse_html dracaufeu_page) = Inr ''Dracaufeu''"
proof -
  have a: "find_first headless_page (is_tag ''h1'') = None" by code_simp
  have b: "parse_html dracaufeu_page = Inr \<lparr>name = ''Dracaufeu'', types = ''Feu-Vol'',
      height = ''1,7 m'', weight = ''90,5 kg'', stats = [(''PV'', 78), (''Attaque'', 84)]\<rparr>"
    by code_simp
  have c: "find_first dracaufeu_page (is_tag ''h1'')
             = Some (Tag ''h1'' [] [NavigableString '' Dracaufeu ''], tl (descendants dracaufeu_page))"
    by code_simp
  have d: "strip (get_text (Tag ''h1'' [] [NavigableString '' Dracaufeu ''])) = ''Dracaufeu''"
    by code_simp
  from parse_html_name [of headless_page] a
  have 1: "parse_html headless_page = Inl AttributeError" by blast
  from parse_html_name [of dracaufeu_page] b c d
  have 2: "name (projr (parse_html dracaufeu_page)) = ''Dracaufeu''" by auto
  from a 1 2 b show ?thesis by simp
qed

text \<open>
  C4 as stated fails: a heading with nothing but blanks gives a record with the empty
  name.
\<close>

theorem parse_html_empty_name_counterexample:
  "parse_html nameless_page =
     Inr \<lparr>name = [], types = ''Feu'', height = ''1,7 m'', weight = ''90,5 kg'', stats = []\<rparr>"
  by code_simp

section \<open>The types\<close>

text \<open>
  \<open>str.replace\<close> leaves a string without the pattern as it is, and takes the pattern
  off the end of a string that has it nowhere else, when the first character of the
  pattern does not come again in it; \<open>join\<close> puts the separator in front of every element
  but the first.
\<close>

lemma replace_absent: "\<not> sublist p s \<Longrightarrow> replace p new s = s"
proof (induction s)
  case Nil
  then show ?case by simp
next
  case (Cons x s)
  have "take (length p) (x # s) \<noteq> p"
  proof
    assume "take (length p) (x # s) = p"
    then have "prefix p (x # s)" by (metis take_is_prefix)
    then have "sublist p (x # s)" by (rule prefix_imp_sublist)
    with Cons.prems show False by simp
  qed
  moreover have "\<not> sublist p s" using Cons.prems by (auto simp: sublist_Cons_right)
  ultimately show ?case using Cons.IH by simp
qed

lemma replace_suffix:
  assumes "c \<notin> set q" and "\<not> sublist (c # q) s"
  shows "replace (c # q) new (s @ c # q) = s @ new"
  using assms(2)
proof (induction s)
  case Nil
  then show ?case by simp
next
  case (Cons x s)
  have np: "take (length (c # q)) ((x # s) @ c # q) \<noteq> c # q"
  proof
    assume t: "take (length (c # q)) ((x # s) @ c # q) = c # q"
    then have pre: "prefix (c # q) ((x # s) @ c # q)" by (metis take_is_prefix)
    show False
    proof (cases "length (c # q) \<le> length (x # s)")
      case True
      with pre have "prefix (c # q) (x # s)"
        by (metis prefix_length_prefix prefixI append.simps(2) append_Cons)
      then have "sublist (c # q) (x # s)" by (rule prefix_imp_sublist)
      with Cons.prems show False by simp
    next
      case False
      then have l: "length s < length q" by simp
      from t have "(c # q) ! (length (x # s)) = ((x # s) @ c # q) ! (length (x # s))"
        using False by (metis nth_take not_le)
      then have "q ! length s = c" by (simp add: nth_append)
      with l have "c \<in> set q" by (metis nth_mem)
      with assms(1) show False by simp
    qed
  qed
  have "\<not> sublist (c # q) s" using Cons.prems by (auto simp: sublist_Cons_right)
  then have ih: "replace (c # q) new (s @ c # q) = s @ new" by (rule Cons.IH)
  have "replace (c # q) new ((x # s) @ c # q) = x # replace (c # q) new (s @ c # q)"
    using np by (simp del: take_Suc_Cons)
  with ih show ?case by simp
qed

lemma join_concat:
  "join sep xs = (if xs = [] then [] else hd xs @ concat (map (\<lambda>x. sep @ x) (tl xs)))"
  by (induction sep xs rule: join.induct) simp_all

lemma strip_type:
  "\<not> sublist '' (type)'' stem \<Longrightarrow>
     replace '' (type)'' [] (stem @ '' (type)'') = stem \<and> replace '' (type)'' [] stem = stem"
proof -
  assume a: "\<not> sublist '' (type)'' stem"
  have "CHR '' '' \<notin> set ''(type)''" by simp
  from replace_suffix [OF this, of stem "[]"] a
  have "replace '' (type)'' [] (stem @ '' (type)'') = stem" by simp
  with replace_absent [OF a] show ?thesis by simp
qed

lemma strip_types:
  "list_all2 (\<lambda>t stem. (t = stem @ '' (type)'' \<or> t = stem) \<and> \<not> sublist '' (type)'' stem) titles stems
     \<Longrightarrow> map (replace '' (type)'' []) titles = stems"
proof (induction titles stems rule: list_all2_induct)
  case Nil
  then show ?case by simp
next
  case (Cons t ts stem stems)
  then show ?case using strip_type [of stem] by auto
qed

lemma parse_html_types_field:
  "parse_html soup = Inr r \<Longrightarrow> extract_types soup = Inr (Some (types r))"
  unfolding parse_html_def
  by (auto split: option.splits sum.splits prod.splits)

text \<open>
  C9. When the types label is found, with a cell after it, the types are the titles of
  the links of that cell that have one, in their order, each with every \<open> (type)\<close> taken
  out, joined by hyphens: in the local variable, and in every record that \<open>parse_html\<close>
  returns for the page. When each title is a stem or a stem followed by \<open> (type)\<close>, the
  stem not holding \<open> (type)\<close>, the types are the stems with a hyphen in front of every stem
  but the first. For exactly the two titles \<open>Feu (type)\<close> and \<open>Vol (type)\<close> they are
  \<open>Feu-Vol\<close>.
\<close>

theorem parse_html_types:
  assumes "find_first soup types_label = Some (th, following)"
    and "first_match (is_tag ''td'') following = Some (td, rest)"
    and "[the (attr a ''title''). a \<leftarrow> find_all td (is_tag ''a''), attr a ''title'' \<noteq> None] = titles"
  shows "extract_types soup = Inr (Some (join ''-'' (map (replace '' (type)'' []) titles))) \<and>
         (\<forall>r. parse_html soup = Inr r \<longrightarrow> types r = join ''-'' (map (replace '' (type)'' []) titles)) \<and>
         (\<forall>stems. list_all2 (\<lambda>t stem. (t = stem @ '' (type)'' \<or> t = stem) \<and> \<not> sublist '' (type)'' stem)
                      titles stems \<longrightarrow>
            join ''-'' (map (replace '' (type)'' []) titles)
              = (if stems = [] then [] else hd stems @ concat (map (\<lambda>stem. ''-'' @ stem) (tl stems)))) \<and>
         (titles = [''Feu (type)'', ''Vol (type)''] \<longrightarrow>
            extract_types soup = Inr (Some ''Feu-Vol'') \<and>
            (\<forall>r. parse_html soup = Inr r \<longrightarrow> types r = ''Feu-Vol''))"
proof -
  have lt: "link_titles td = map (replace '' (type)'' []) titles"
  proof -
    have "\<And>xs. [replace '' (type)'' [] (the (attr a ''title'')). a \<leftarrow> xs, attr a ''title'' \<noteq> None]
        = map (replace '' (type)'' []) [the (attr a ''title''). a \<leftarrow> xs, attr a ''title'' \<noteq> None]"
      by (induct_tac xs) simp_all
    then show ?thesis unfolding link_titles_def assms(3) [symmetric] by blast
  qed
  have ty: "extract_types soup = Inr (Some (join ''-'' (map (replace '' (type)'' []) titles)))"
    using assms(1,2) by (simp add: extract_types_def lt)
  have rec: "\<forall>r. parse_html soup = Inr r \<longrightarrow> types r = join ''-'' (map (replace '' (type)'' []) titles)"
    using ty parse_html_types_field [of soup] by auto
  have stems: "\<forall>stems. list_all2 (\<lambda>t stem. (t = stem @ '' (type)'' \<or> t = stem) \<and> \<not> sublist '' (type)'' stem)
                      titles stems \<longrightarrow>
            join ''-'' (map (replace '' (type)'' []) titles)
              = (if stems = [] then [] else hd stems @ concat (map (\<lambda>stem. ''-'' @ stem) (tl stems)))"
    using strip_types [of titles] join_concat [of "''-''"] by auto
  have fv: "join ''-'' (map (replace '' (type)'' []) [''Feu (type)'', ''Vol (type)'']) = ''Feu-Vol''"
    by code_simp
  have two: "titles = [''Feu (type)'', ''Vol (type)''] \<longrightarrow>
            extract_types soup = Inr (Some ''Feu-Vol'') \<and>
            (\<forall>r. parse_html soup = Inr r \<longrightarrow> types r = ''Feu-Vol'')"
    using ty rec fv by auto
  from ty rec stems two show ?thesis by (intro conjI)
qed

text \<open>The page of Dracaufeu, whose types cell holds these two links.\<close>

theorem parse_html_types_witness:
  "map_sum id types (parse_html dracaufeu_page) = Inr ''Feu-Vol'' \<and>
   list_all2 (\<lambda>t stem. (t = stem @ '' (type)'' \<or> t = stem) \<and> \<not> sublist '' (type)'' stem)
     [''Feu (type)'', ''Vol (type)''] [''Feu'', ''Vol''] \<and>
   join ''-'' (map (replace '' (type)'' []) [''Feu (type)'', ''Vol (type)'']) = ''Feu-Vol''"
proof -
  define td where "td = Tag ''td'' [] (map type_link [''Feu (type)'', ''Vol (type)''])"
  have a: "find_first dracaufeu_page types_label
             = Some (Tag ''th'' [] [NavigableString ''Types''], drop 5 (descendants dracaufeu_page))"
    by code_simp
  have b: "first_match (is_tag ''td'') (drop 5 (descendants dracaufeu_page))
             = Some (td, drop 7 (descendants dracaufeu_page))"
    unfolding td_def by code_simp
  have c: "[the (attr a ''title''). a \<leftarrow> find_all td (is_tag ''a''), attr a ''title'' \<noteq> None]
             = [''Feu (type)'', ''Vol (type)'']"
    unfolding td_def by code_simp
  have d: "parse_html dracaufeu_page = Inr \<lparr>name = ''Dracaufeu'', types = ''Feu-Vol'',
      height = ''1,7 m'', weight = ''90,5 kg'', stats = [(''PV'', 78), (''Attaque'', 84)]\<rparr>"
    by code_simp
  have s1: "\<not> sublist '' (type)'' ''Feu''" by code_simp
  have s2: "\<not> sublist '' (type)'' ''Vol''" by code_simp
  have e: "list_all2 (\<lambda>t stem. (t = stem @ '' (type)'' \<or> t = stem) \<and> \<not> sublist '' (type)'' stem)
     [''Feu (type)'', ''Vol (type)''] [''Feu'', ''Vol'']"
    using s1 s2 by simp
  note t = parse_html_types [OF a b c]
  from t d have 1: "map_sum id types (parse_html dracaufeu_page) = Inr ''Feu-Vol''" by simp
  from t e have "join ''-'' (map (replace '' (type)'' []) [''Feu (type)'', ''Vol (type)''])
      = (if [''Feu'', ''Vol''] = [] then [] else hd [''Feu'', ''Vol''] @ concat (map (\<lambda>stem. ''-'' @ stem) (tl [''Feu'', ''Vol''])))"
    by blast
  then have 2: "join ''-'' (map (replace '' (type)'' []) [''Feu (type)'', ''Vol (type)'']) = ''Feu-Vol''"
    by simp
  from 1 e 2 show ?thesis by (intro conjI)
qed

section \<open>The statistics\<close>

text \<open>
  The loop over the rows of the statistics table raises \<open>ValueError\<close> when an entry has
  no integer, and otherwise assigns the entries in the order of the rows.
\<close>

lemma entries_Cons:
  "entries (row # rows) = (case stat_entry row of None \<Rightarrow> entries rows | Some e \<Rightarrow> e # entries rows)"
  by (simp add: entries_def split: option.splits)

lemma stats_rows_entries:
  "stats_rows rows st =
     (if \<exists>entry \<in> set (entries rows). snd entry = None then Inl ValueError
      else Inr (foldl set_entry st (entries rows)))"
proof (induction rows arbitrary: st)
  case Nil
  then show ?case by (simp add: entries_def)
next
  case (Cons row rows)
  show ?case
  proof (cases "stat_entry row")
    case None
    then have skip: "stats_rows (row # rows) st = stats_rows rows st"
      by (auto simp: stat_entry_def marked_row_def Let_def split: option.splits if_splits)
    show ?thesis unfolding skip Cons.IH by (simp add: entries_Cons None)
  next
    case (Some e)
    then obtain link following where f: "find_first row stat_link = Some (link, following)"
      and len: "2 \<le> length (find_all row (is_tag ''td''))"
      and e: "e = (strip (get_text link), py_int (strip (get_text (find_all row (is_tag ''td'') ! 1))))"
      by (auto simp: stat_entry_def marked_row_def split: if_splits)
    show ?thesis
    proof (cases "snd e")
      case None
      then have "stats_rows (row # rows) st = Inl ValueError"
        using f len e by simp
      then show ?thesis using None by (simp add: entries_Cons Some)
    next
      case (Some v)
      then have step: "stats_rows (row # rows) st = stats_rows rows (dict_set (fst e) v st)"
        using f len e by simp
      have se: "dict_set (fst e) v st = set_entry st e"
        using Some by (simp add: set_entry_def)
      show ?thesis
        unfolding step Cons.IH se using Some \<open>stat_entry row = Some e\<close>
        by (simp add: entries_Cons)
    qed
  qed
qed

lemma fst_dict_set: "fst ` set (dict_set k v st) = insert k (fst ` set st)"
  by (induction st) auto

lemma fst_foldl_set_entry:
  "fst ` set (foldl set_entry st es) = fst ` set st \<union> fst ` set es"
  by (induction es arbitrary: st) (auto simp: set_entry_def fst_dict_set)

lemma extract_stats_table:
  "extract_stats soup =
     (case stats_table soup of None \<Rightarrow> Inr []
      | Some table \<Rightarrow> stats_rows (find_all table (is_tag ''tr'')) [])"
  by (auto simp: extract_stats_def stats_table_def split: option.splits)

lemma parse_html_stats_field:
  "parse_html soup = Inr r \<Longrightarrow> extract_stats soup = Inr (stats r)"
  unfolding parse_html_def
  by (auto split: option.splits sum.splits prod.splits)

text \<open>
  C7, as the code has it. Without the \<open>Statistiques\<close> anchor, or without a table of
  class \<open>tableaustandard\<close> after it, the statistics are empty, in every record that
  \<open>parse_html\<close> returns. With such a table: a row without a link titled \<open>Statistique\<close>
  has no entry, and neither has a marked row with fewer than two cells; a marked row
  with two cells or more has the entry named by the trimmed text of the link, with the
  integer read from the second cell. If some entry has no integer the extraction raises
  \<open>ValueError\<close> and \<open>parse_html\<close> returns no record; otherwise the statistics of a
  returned record are the entries, assigned in the order of the rows, and their names
  are the names of the entries.
\<close>

theorem parse_html_stats:
  "(find_first soup stats_anchor = None \<longrightarrow> stats_table soup = None) \<and>
   (stats_table soup = None \<longrightarrow>
      extract_stats soup = Inr [] \<and> (\<forall>r. parse_html soup = Inr r \<longrightarrow> stats r = [])) \<and>
   (\<forall>table. stats_table soup = Some table \<longrightarrow>
      ((\<exists>entry \<in> set (entries (find_all table (is_tag ''tr''))). snd entry = None) \<longrightarrow>
         extract_stats soup = Inl ValueError \<and> (\<forall>r. parse_html soup \<noteq> Inr r)) \<and>
      ((\<forall>entry \<in> set (entries (find_all table (is_tag ''tr''))). snd entry \<noteq> None) \<longrightarrow>
         extract_stats soup = Inr (foldl set_entry [] (entries (find_all table (is_tag ''tr'')))) \<and>
         (\<forall>r. parse_html soup = Inr r \<longrightarrow>
            stats r = foldl set_entry [] (entries (find_all table (is_tag ''tr''))) \<and>
            fst ` set (stats r) = fst ` set (entries (find_all table (is_tag ''tr'')))))) \<and>
   (\<forall>row. \<not> marked_row row \<longrightarrow> stat_entry row = None) \<and>
   (\<forall>row. marked_row row \<and> length (find_all row (is_tag ''td'')) < 2 \<longrightarrow> stat_entry row = None) \<and>
   (\<forall>row. marked_row row \<and> 2 \<le> length (find_all row (is_tag ''td'')) \<longrightarrow>
      stat_entry row =
        Some (strip (get_text (fst (the (find_first row stat_link)))),
              py_int (strip (get_text (find_all row (is_tag ''td'') ! 1)))))"
proof -
  have a: "find_first soup stats_anchor = None \<longrightarrow> stats_table soup = None"
    by (simp add: stats_table_def)
  have b: "stats_table soup = None \<longrightarrow>
      extract_stats soup = Inr [] \<and> (\<forall>r. parse_html soup = Inr r \<longrightarrow> stats r = [])"
    using parse_html_stats_field [of soup] by (auto simp: extract_stats_table)
  have c: "\<forall>table. stats_table soup = Some table \<longrightarrow>
      ((\<exists>entry \<in> set (entries (find_all table (is_tag ''tr''))). snd entry = None) \<longrightarrow>
         extract_stats soup = Inl ValueError \<and> (\<forall>r. parse_html soup \<noteq> Inr r)) \<and>
      ((\<forall>entry \<in> set (entries (find_all table (is_tag ''tr''))). snd entry \<noteq> None) \<longrightarrow>
         extract_stats soup = Inr (foldl set_entry [] (entries (find_all table (is_tag ''tr'')))) \<and>
         (\<forall>r. parse_html soup = Inr r \<longrightarrow>
            stats r = foldl set_entry [] (entries (find_all table (is_tag ''tr''))) \<and>
            fst ` set (stats r) = fst ` set (entries (find_all table (is_tag ''tr'')))))"
  proof (intro allI impI)
    fix table assume t: "stats_table soup = Some table"
    define es where "es = entries (find_all table (is_tag ''tr''))"
    have ex: "extract_stats soup =
        (if \<exists>entry \<in> set es. snd entry = None then Inl ValueError else Inr (foldl set_entry [] es))"
      unfolding es_def by (simp add: extract_stats_table t stats_rows_entries)
    have bad: "(\<exists>entry \<in> set es. snd entry = None) \<longrightarrow>
         extract_stats soup = Inl ValueError \<and> (\<forall>r. parse_html soup \<noteq> Inr r)"
    proof (intro impI conjI allI)
      assume bd: "\<exists>entry \<in> set es. snd entry = None"
      then show e0: "extract_stats soup = Inl ValueError" using ex by simp
      fix r show "parse_html soup \<noteq> Inr r"
      proof
        assume "parse_html soup = Inr r"
        then have "extract_stats soup = Inr (stats r)" by (rule parse_html_stats_field)
        with e0 show False by simp
      qed
    qed
    have good: "(\<forall>entry \<in> set es. snd entry \<noteq> None) \<longrightarrow>
         extract_stats soup = Inr (foldl set_entry [] es) \<and>
         (\<forall>r. parse_html soup = Inr r \<longrightarrow>
            stats r = foldl set_entry [] es \<and> fst ` set (stats r) = fst ` set es)"
    proof (intro impI conjI allI)
      assume g: "\<forall>entry \<in> set es. snd entry \<noteq> None"
      then show e1: "extract_stats soup = Inr (foldl set_entry [] es)" using ex by auto
      fix r assume "parse_html soup = Inr r"
      then have "extract_stats soup = Inr (stats r)" by (rule parse_html_stats_field)
      with e1 show s: "stats r = foldl set_entry [] es" by simp
      show "fst ` set (stats r) = fst ` set es"
        unfolding s by (simp add: fst_foldl_set_entry)
    qed
    from bad good show "((\<exists>entry \<in> set (entries (find_all table (is_tag ''tr''))). snd entry = None) \<longrightarrow>
         extract_stats soup = Inl ValueError \<and> (\<forall>r. parse_html soup \<noteq> Inr r)) \<and>
      ((\<forall>entry \<in> set (entries (find_all table (is_tag ''tr''))). snd entry \<noteq> None) \<longrightarrow>
         extract_stats soup = Inr (foldl set_entry [] (entries (find_all table (is_tag ''tr'')))) \<and>
         (\<forall>r. parse_html soup = Inr r \<longrightarrow>
            stats r = foldl set_entry [] (entries (find_all table (is_tag ''tr''))) \<and>
            fst ` set (stats r) = fst ` set (entries (find_all table (is_tag ''tr'')))))"
      unfolding es_def by blast
  qed
  have d: "\<forall>row. \<not> marked_row row \<longrightarrow> stat_entry row = None"
    by (simp add: stat_entry_def)
  have e: "\<forall>row. marked_row row \<and> length (find_all row (is_tag ''td'')) < 2 \<longrightarrow> stat_entry row = None"
    by (simp add: stat_entry_def)
  have f: "\<forall>row. marked_row row \<and> 2 \<le> length (find_all row (is_tag ''td'')) \<longrightarrow>
      stat_entry row =
        Some (strip (get_text (fst (the (find_first row stat_link)))),
              py_int (strip (get_text (find_all row (is_tag ''td'') ! 1))))"
    by (simp add: stat_entry_def)
  from a b c d e f show ?thesis by (intro conjI)
qed

text \<open>
  A page with no statistics section, one with the value \<open>8 4\<close>, the page of Dracaufeu,
  and three rows: one unmarked, one marked with a single cell, one marked with two.
\<close>

theorem parse_html_stats_witness:
  "find_first no_stats_page stats_anchor = None \<and>
   map_sum id stats (parse_html no_stats_page) = Inr [] \<and>
   extract_stats bad_stat_page = Inl ValueError \<and>
   map_sum id stats (parse_html dracaufeu_page) = Inr [(''PV'', 78), (''Attaque'', 84)] \<and>
   stat_entry (label_row ''Taille'' ''1,7 m'') = None \<and>
   stat_entry short_row = None \<and>
   stat_entry (stat_row (''PV'', '' 78 '')) = Some (''PV'', Some 78)"
proof -
  note absent = parse_html_stats [THEN conjunct1, rule_format]
  note no_table = parse_html_stats [THEN conjunct2, THEN conjunct1, rule_format]
  note table = parse_html_stats [THEN conjunct2, THEN conjunct2, THEN conjunct1, rule_format]
  note unmarked = parse_html_stats [THEN conjunct2, THEN conjunct2, THEN conjunct2, THEN conjunct1, rule_format]
  note short = parse_html_stats [THEN conjunct2, THEN conjunct2, THEN conjunct2, THEN conjunct2,
      THEN conjunct1, rule_format]
  note marked = parse_html_stats [THEN conjunct2, THEN conjunct2, THEN conjunct2, THEN conjunct2,
      THEN conjunct2, rule_format]
  have n0: "find_first no_stats_page stats_anchor = None" by code_simp
  have n1: "parse_html no_stats_page = Inr \<lparr>name = ''Dracaufeu'', types = ''Feu'',
      height = ''1,7 m'', weight = ''90,5 kg'', stats = []\<rparr>"
    by code_simp
  from no_table [OF absent [OF n0]] n1
  have "stats \<lparr>name = ''Dracaufeu'', types = ''Feu'',
      height = ''1,7 m'', weight = ''90,5 kg'', stats = []\<rparr> = []" by blast
  with n1 have m1: "map_sum id stats (parse_html no_stats_page) = Inr []" by simp
  have b0: "stats_table bad_stat_page
      = Some (stats_part (map stat_row [(''PV'', ''78''), (''Attaque'', ''8 4'')]) ! 1)"
    by code_simp
  have b1: "(''Attaque'', None) \<in> set (entries (find_all
      (stats_part (map stat_row [(''PV'', ''78''), (''Attaque'', ''8 4'')]) ! 1) (is_tag ''tr'')))"
    by code_simp
  from table [OF b0] b1
  have 2: "extract_stats bad_stat_page = Inl ValueError" by force
  have d0: "stats_table dracaufeu_page
      = Some (stats_part (map stat_row [(''PV'', ''78''), (''Attaque'', '' 84 '')]) ! 1)"
    by code_simp
  have d1: "entries (find_all
      (stats_part (map stat_row [(''PV'', ''78''), (''Attaque'', '' 84 '')]) ! 1) (is_tag ''tr''))
      = [(''PV'', Some 78), (''Attaque'', Some 84)]"
    by code_simp
  have d2: "parse_html dracaufeu_page = Inr \<lparr>name = ''Dracaufeu'', types = ''Feu-Vol'',
      height = ''1,7 m'', weight = ''90,5 kg'', stats = [(''PV'', 78), (''Attaque'', 84)]\<rparr>"
    by code_simp
  have d3: "foldl set_entry [] [(''PV'', Some 78), (''Attaque'', Some 84)]
      = [(''PV'', 78), (''Attaque'', 84)]"
    by code_simp
  from table [OF d0] d2
  have "stats \<lparr>name = ''Dracaufeu'', types = ''Feu-Vol'',
      height = ''1,7 m'', weight = ''90,5 kg'', stats = [(''PV'', 78), (''Attaque'', 84)]\<rparr>
      = foldl set_entry [] [(''PV'', Some 78), (''Attaque'', Some 84)]"
    unfolding d1 by force
  with d2 d3 have m3: "map_sum id stats (parse_html dracaufeu_page) = Inr [(''PV'', 78), (''Attaque'', 84)]"
    by simp
  have r0: "\<not> marked_row (label_row ''Taille'' ''1,7 m'')" by code_simp
  have 4: "stat_entry (label_row ''Taille'' ''1,7 m'') = None"
    using r0 by (rule unmarked)
  have r1: "marked_row short_row \<and> length (find_all short_row (is_tag ''td'')) < 2" by code_simp
  have 5: "stat_entry short_row = None"
    using r1 by (rule short)
  have r2: "marked_row (stat_row (''PV'', '' 78 '')) \<and>
      2 \<le> length (find_all (stat_row (''PV'', '' 78 '')) (is_tag ''td''))" by code_simp
  have r3: "(strip (get_text (fst (the (find_first (stat_row (''PV'', '' 78 '')) stat_link)))),
             py_int (strip (get_text (find_all (stat_row (''PV'', '' 78 '')) (is_tag ''td'') ! 1))))
            = (''PV'', Some 78)" by code_simp
  have 6: "stat_entry (stat_row (''PV'', '' 78 '')) = Some (''PV'', Some 78)"
    using marked [OF r2] unfolding r3 .
  from n0 m1 2 m3 4 5 6 show ?thesis by (intro conjI)
qed

text \<open>
  C7 as stated fails: a marked row contributes nothing when it has a single cell. The row
  is in the statistics table of the page, and the record has no statistics.
\<close>

theorem marked_row_without_value_counterexample:
  "marked_row short_row \<and>
   stats_table short_row_page = Some (stats_part [short_row] ! 1) \<and>
   find_all (stats_part [short_row] ! 1) (is_tag ''tr'') ! 1 = short_row \<and>
   parse_html short_row_page =
     Inr \<lparr>name = ''Dracaufeu'', types = ''Feu'', height = ''1,7 m'', weight = ''90,5 kg'', stats = []\<rparr>"
  by code_simp

section \<open>The listing of a generation\<close>

text \<open>
  \<open>lower\<close> changes exactly the upper case letters and gives none; no character of a
  capitalized string after the first is an upper case letter; \<open>capitalize\<close> gives the
  string with only its first letter capitalized exactly when no character after the first
  is an upper case letter; and the loop over the rows of the listing collects the names
  of the valid rows in their order.
\<close>

lemma lower_fixed: "lower c = c \<longleftrightarrow> \<not> isupper (of_char c)"
proof -
  have "(of_char c :: nat) < 256" by (rule nat_of_char_less_256)
  moreover have "char_of (of_char c + (32::nat)) = c \<Longrightarrow> (of_char c + (32::nat)) mod 256 = of_char c"
    by (metis of_char_of)
  ultimately show ?thesis
    unfolding lower_def isupper_def by auto
qed





lemma ustr_eq: "ustr xs = ustr ys \<longleftrightarrow> xs = ys"
  unfolding ustr_def by (simp add: inj_map_eq_map inj_on_def)

lemma capitalize_first_eq:
  "capitalize t = capitalize_first t \<longleftrightarrow> (\<forall>c \<in> set (tl t). \<not> isupper (of_char c))"
proof (cases t)
  case Nil
  then show ?thesis by (simp add: capitalize_first_def)
next
  case (Cons ch cs)
  have "map lower cs = cs \<longleftrightarrow> (\<forall>c \<in> set cs. \<not> isupper (of_char c))"
    using lower_fixed by (induction cs) auto
  then show ?thesis using Cons by (simp add: capitalize_first_def ustr_eq)
qed

lemma pokemon_rows_eq:
  "pokemon_rows rows pokemon_list = pokemon_list @ map row_name (filter valid_row rows)"
proof (induction rows arbitrary: pokemon_list)
  case Nil
  then show ?case by simp
next
  case (Cons row rows)
  show ?case
  proof (cases "valid_row row")
    case True
    then obtain link following where
      "find_first (find_all row (is_tag ''td'') ! 2) titled_link = Some (link, following)"
      and "3 \<le> length (find_all row (is_tag ''td''))"
      by (auto simp: valid_row_def)
    then show ?thesis using True by (simp add: Cons.IH row_name_def)
  next
    case False
    then have "pokemon_rows (row # rows) pokemon_list = pokemon_rows rows pokemon_list"
      by (auto simp: valid_row_def Let_def split: option.splits)
    then show ?thesis using False by (simp add: Cons.IH)
  qed
qed

lemma ustr_append: "ustr a @ ustr b = ustr (a @ b)"
  by (simp add: ustr_def)





text \<open>
  C5 asks for the titles with their first letter capitalized. When the listing page of
  the generation is fetched with status 200 and holds a table of class
  \<open>tableaustandard\<close>, the result is the list, in the order of the rows, of the names of
  the valid rows of the first such table, each the title of the first titled link of the
  third cell, trimmed and passed through \<open>capitalize\<close>; a row with fewer than three cells
  is not valid, and with no valid row the result is the empty list. But \<open>capitalize\<close>
  gives the title with its first letter capitalized only when no later character is an
  upper case letter: every other title comes back changed after its first letter.
\<close>

theorem get_pokemons_from_generation_names:
  assumes "map_of GENERTAIONS_URL generation = Some path"
    and "web w (ustr (POKEPEDIA @ path)) = Inr (Response 200 soup)"
    and "find_first soup standard_table = Some (table, following)"
  shows "fst (get_pokemons_from_generation generation w)
           = Inr (map (\<lambda>row. capitalize (row_name row))
                   (filter valid_row (find_all table (is_tag ''tr'')))) \<and>
         (\<forall>row. length (find_all row (is_tag ''td'')) < 3 \<longrightarrow> \<not> valid_row row) \<and>
         (filter valid_row (find_all table (is_tag ''tr'')) = [] \<longrightarrow>
            fst (get_pokemons_from_generation generation w) = Inr []) \<and>
         (\<forall>t. (\<forall>c \<in> set (tl t). \<not> isupper (of_char c)) \<longrightarrow> capitalize t = capitalize_first t) \<and>
         (\<forall>t. (\<exists>c \<in> set (tl t). isupper (of_char c)) \<longrightarrow> capitalize t \<noteq> capitalize_first t)"
proof -
  have r: "fst (get_pokemons_from_generation generation w)
           = Inr (map (\<lambda>row. capitalize (row_name row))
                   (filter valid_row (find_all table (is_tag ''tr''))))"
    using assms
    by (simp add: get_pokemons_from_generation_def requests_get_def pokemon_rows_eq comp_def)
  have s: "\<forall>row. length (find_all row (is_tag ''td'')) < 3 \<longrightarrow> \<not> valid_row row"
    by (simp add: valid_row_def)
  have e: "filter valid_row (find_all table (is_tag ''tr'')) = [] \<longrightarrow>
            fst (get_pokemons_from_generation generation w) = Inr []"
    using r by simp
  have a: "\<forall>t. (\<forall>c \<in> set (tl t). \<not> isupper (of_char c)) \<longrightarrow> capitalize t = capitalize_first t"
    using capitalize_first_eq by blast
  have d: "\<forall>t. (\<exists>c \<in> set (tl t). isupper (of_char c)) \<longrightarrow> capitalize t \<noteq> capitalize_first t"
    using capitalize_first_eq by blast
  from r s e a d show ?thesis by (intro conjI)
qed

text \<open>
  A listing with a row of header cells, a row with one cell, and three valid rows, the
  last titled \<open>Ho-Oh\<close>.
\<close>

theorem get_pokemons_from_generation_names_witness:
  "fst (get_pokemons_from_generation 1 listing_world)
     = Inr [ustr ''Bulbizarre'', ustr ''Herbizarre'', ustr ''Ho-oh''] \<and>
   capitalize_first ''bulbizarre'' = ustr ''Bulbizarre'' \<and>
   capitalize ''bulbizarre'' = ustr ''Bulbizarre'' \<and>
   capitalize_first ''Ho-Oh'' = ustr ''Ho-Oh'' \<and>
   capitalize ''Ho-Oh'' \<noteq> ustr ''Ho-Oh''"
proof -
  define page where "page = listing_page [''bulbizarre'', '' Herbizarre'', ''Ho-Oh'']"
  have a: "map_of GENERTAIONS_URL 1 = Some (the (map_of GENERTAIONS_URL 1))"
    by (simp add: GENERTAIONS_URL_def)
  have b: "web listing_world (ustr (POKEPEDIA @ the (map_of GENERTAIONS_URL 1))) = Inr (Response 200 page)"
    by (simp add: listing_world_def listing_web_def page_def)
  have c: "find_first page standard_table = Some (descendants page ! 2, drop 3 (descendants page))"
    unfolding page_def by code_simp
  have d: "map (\<lambda>row. capitalize (row_name row))
             (filter valid_row (find_all (descendants page ! 2) (is_tag ''tr'')))
           = [ustr ''Bulbizarre'', ustr ''Herbizarre'', ustr ''Ho-oh'']"
    unfolding page_def by code_simp
  note t = get_pokemons_from_generation_names [OF a b c]
  from t have 1: "fst (get_pokemons_from_generation 1 listing_world)
     = Inr [ustr ''Bulbizarre'', ustr ''Herbizarre'', ustr ''Ho-oh'']"
    unfolding d by (rule conjunct1)
  have f1: "capitalize_first ''bulbizarre'' = ustr ''Bulbizarre''" by code_simp
  have f2: "capitalize_first ''Ho-Oh'' = ustr ''Ho-Oh''" by code_simp
  have l: "\<forall>c \<in> set (tl ''bulbizarre''). \<not> isupper (of_char c)" by code_simp
  have u: "\<exists>c \<in> set (tl ''Ho-Oh''). isupper (of_char c)" by code_simp
  from t l have "capitalize ''bulbizarre'' = capitalize_first ''bulbizarre''" by blast
  with f1 have 2: "capitalize ''bulbizarre'' = ustr ''Bulbizarre''" by simp
  from t u have "capitalize ''Ho-Oh'' \<noteq> capitalize_first ''Ho-Oh''" by blast
  with f2 have 3: "capitalize ''Ho-Oh'' \<noteq> ustr ''Ho-Oh''" by simp
  from 1 f1 2 f2 3 show ?thesis by (intro conjI)
qed



section \<open>The dataset\<close>

text \<open>
  C8. For a generation below 1 or above 9, \<open>create_database\<close> raises \<open>ValueError\<close> and
  leaves the world as it was: no URL has been requested.
\<close>

theorem create_database_invalid_generation:
  assumes "generation < 1 \<or> 9 < generation"
  shows "get_pokemons_from_generation generation w = (Inl ValueError, w) \<and>
         create_database generation w = (Inl ValueError, w) \<and>
         requested (snd (create_database generation w)) = requested w"
proof -
  have "map_of GENERTAIONS_URL generation = None"
    using assms by (auto simp: GENERTAIONS_URL_def)
  then have g: "get_pokemons_from_generation generation w = (Inl ValueError, w)"
    by (simp add: get_pokemons_from_generation_def)
  then show ?thesis by (simp add: create_database_def)
qed

text \<open>The generations 0 and 10.\<close>

theorem create_database_invalid_generation_witness:
  "fst (create_database 0 example_world) = Inl ValueError \<and>
   requested (snd (create_database 0 example_world)) = [] \<and>
   fst (create_database 10 example_world) = Inl ValueError \<and>
   requested (snd (create_database 10 example_world)) = []"
proof -
  have r: "requested example_world = []" by (simp add: example_world_def)
  have a: "(0::int) < 1 \<or> 9 < (0::int)" by simp
  have b: "(10::int) < 1 \<or> 9 < (10::int)" by simp
  from create_database_invalid_generation [OF a, of example_world]
       create_database_invalid_generation [OF b, of example_world] r
  show ?thesis by simp
qed

text \<open>
  The requests, the lines and the console of one turn of the loop, and of the whole loop;
  what the retrieval of the roster leaves unchanged; and the lines of the example web.
\<close>

lemma get_html_pokemon_eq:
  "get_html_pokemon pokemon w =
     (case web w (ustr POKEPEDIA @ pokemon) of
        Inl e \<Rightarrow> Inl e
      | Inr (Response status_code html) \<Rightarrow>
          if status_code = 200 then Inr html
          else if status_code = 404 then Inl ValueError else Inl Exception,
      w\<lparr>requested := requested w @ [ustr POKEPEDIA @ pokemon]\<rparr>)"
  by (simp add: get_html_pokemon_def requests_get_def split: sum.splits response.splits)

lemma write_row_web: "web (write_row pokemon w) = web w"
  by (simp add: write_row_def get_html_pokemon_eq print_def Let_def
      split: sum.splits response.splits)

lemma write_row_csvfile:
  "csvfile (write_row pokemon w) = csvfile w @ written (web w) [pokemon]"
  by (simp add: write_row_def get_html_pokemon_eq print_def Let_def written_def row_for_def
      split: sum.splits response.splits)

lemma written_Cons: "written net (pokemon # rest) = written net [pokemon] @ written net rest"
  by (simp add: written_def)

lemma write_rows_csvfile:
  "csvfile (write_rows all_pokemons w) = csvfile w @ written (web w) all_pokemons"
proof (induction all_pokemons arbitrary: w)
  case Nil
  then show ?case by (simp add: written_def)
next
  case (Cons pokemon rest)
  show ?case
    by (simp add: Cons.IH write_row_web write_row_csvfile written_Cons [of _ pokemon rest])
qed



lemma parse_html_cells:
  "parse_html soup = Inr r \<Longrightarrow>
     labelled_cell soup ''Taille'' = Inr (height r) \<and> labelled_cell soup ''Poids'' = Inr (weight r)"
  unfolding parse_html_def
  by (auto split: option.splits sum.splits prod.splits)


lemma row_for_parsed:
  assumes "net (ustr POKEPEDIA @ pokemon) = Inr (Response 200 html)"
    and "parse_html html = Inr info"
    and "stats info \<noteq> []"
    and "\<bar>real_of_int (sum_list (map snd (stats info)))\<bar> < (2 ^ 1024 - 2 ^ 970) * real (length (stats info))"
  shows "\<exists>d. row_for net pokemon = Inr (Row info d)"
proof -
  have len: "0 < length (stats info)" using assms(3) by simp
  from assms(4)
  have "\<not> (2 ^ 1024 - 2 ^ 970) * real (length (stats info)) \<le> \<bar>real_of_int (sum_list (map snd (stats info)))\<bar>"
    by (simp only: not_le)
  then have "truediv (sum_list (map snd (stats info))) (length (stats info)) \<noteq> Inl OverflowError"
    using truediv_overflow [OF len, of "sum_list (map snd (stats info))"] by blast
  then have "\<exists>avg. truediv (sum_list (map snd (stats info))) (length (stats info)) = Inr avg"
    using len by (simp add: truediv_def split: if_splits)
  then obtain d where "classify (stats info) = Inr d"
    using assms(3) by (auto simp: classify_def average_stats_def)
  then show ?thesis
    by (simp add: row_for_def assms(1) assms(2))
qed

lemma example_rows:
  "\<exists>d. row_for example_web (ustr ''Bulbizarre'') = Inr (Row \<lparr>name = ''Bulbizarre'', types = ''Plante-Poison'', height = ''1,7 m'', weight = ''90,5 kg'', stats = [(''PV'', 45), (''Attaque'', 49)]\<rparr> d)"
  "\<exists>d. row_for example_web (ustr ''Herbizarre'') = Inr (Row \<lparr>name = ''Herbizarre'', types = ''Plante-Poison'', height = ''1,7 m'', weight = ''90,5 kg'', stats = [(''PV'', 60), (''Attaque'', 62)]\<rparr> d)"
  "\<exists>d. row_for example_web (ustr ''Florizarre'') = Inr (Row \<lparr>name = ''Florizarre'', types = ''Plante-Poison'', height = ''1,7 m'', weight = ''90,5 kg'', stats = [(''PV'', 80), (''Attaque'', 82)]\<rparr> d)"
  "\<exists>d. row_for example_web (ustr ''Dracaufeu'') = Inr (Row \<lparr>name = ''Dracaufeu'', types = ''Feu-Vol'', height = ''1,7 m'', weight = ''90,5 kg'', stats = [(''PV'', 78), (''Attaque'', 84)]\<rparr> d)"
  "row_for example_web (ustr ''Ho-oh'') = Inl ValueError"
proof -
  have p1: "parse_html (pokemon_page ''Bulbizarre'' [''Plante (type)'', ''Poison (type)''] [(''PV'', ''45''), (''Attaque'', ''49'')])
      = Inr \<lparr>name = ''Bulbizarre'', types = ''Plante-Poison'', height = ''1,7 m'', weight = ''90,5 kg'', stats = [(''PV'', 45), (''Attaque'', 49)]\<rparr>"
    by code_simp
  have p2: "parse_html (pokemon_page ''Herbizarre'' [''Plante (type)'', ''Poison (type)''] [(''PV'', ''60''), (''Attaque'', ''62'')])
      = Inr \<lparr>name = ''Herbizarre'', types = ''Plante-Poison'', height = ''1,7 m'', weight = ''90,5 kg'', stats = [(''PV'', 60), (''Attaque'', 62)]\<rparr>"
    by code_simp
  have p3: "parse_html (pokemon_page ''Florizarre'' [''Plante (type)'', ''Poison (type)''] [(''PV'', ''80''), (''Attaque'', ''82'')])
      = Inr \<lparr>name = ''Florizarre'', types = ''Plante-Poison'', height = ''1,7 m'', weight = ''90,5 kg'', stats = [(''PV'', 80), (''Attaque'', 82)]\<rparr>"
    by code_simp
  have p4: "parse_html dracaufeu_page
      = Inr \<lparr>name = ''Dracaufeu'', types = ''Feu-Vol'', height = ''1,7 m'', weight = ''90,5 kg'', stats = [(''PV'', 78), (''Attaque'', 84)]\<rparr>"
    by code_simp
  note url = ustr_append example_web_def ustr_eq POKEPEDIA_def GENERTAIONS_URL_def ordinal_url_def
  show "\<exists>d. row_for example_web (ustr ''Bulbizarre'') = Inr (Row \<lparr>name = ''Bulbizarre'', types = ''Plante-Poison'', height = ''1,7 m'', weight = ''90,5 kg'', stats = [(''PV'', 45), (''Attaque'', 49)]\<rparr> d)"
    by (rule row_for_parsed [OF _ p1]) (simp_all add: url)
  show "\<exists>d. row_for example_web (ustr ''Herbizarre'') = Inr (Row \<lparr>name = ''Herbizarre'', types = ''Plante-Poison'', height = ''1,7 m'', weight = ''90,5 kg'', stats = [(''PV'', 60), (''Attaque'', 62)]\<rparr> d)"
    by (rule row_for_parsed [OF _ p2]) (simp_all add: url)
  show "\<exists>d. row_for example_web (ustr ''Florizarre'') = Inr (Row \<lparr>name = ''Florizarre'', types = ''Plante-Poison'', height = ''1,7 m'', weight = ''90,5 kg'', stats = [(''PV'', 80), (''Attaque'', 82)]\<rparr> d)"
    by (rule row_for_parsed [OF _ p3]) (simp_all add: url)
  show "\<exists>d. row_for example_web (ustr ''Dracaufeu'') = Inr (Row \<lparr>name = ''Dracaufeu'', types = ''Feu-Vol'', height = ''1,7 m'', weight = ''90,5 kg'', stats = [(''PV'', 78), (''Attaque'', 84)]\<rparr> d)"
    by (rule row_for_parsed [OF _ p4]) (simp_all add: url)
  show "row_for example_web (ustr ''Ho-oh'') = Inl ValueError"
    by (simp add: row_for_def url)
qed




text \<open>
  C6. On a page with no \<open>th\<close> whose string is \<open>Taille\<close>, or none whose string is
  \<open>Poids\<close>, \<open>parse_html\<close> raises an exception. In \<open>create_database\<close> the body of the loop
  catches it: for a name with such a page it writes no line, prints the exception, and the
  loop goes on with the rest of the roster. \<open>get_pokemon\<close> raises the same exception.
\<close>

theorem missing_height_or_weight_label:
  assumes "find_first soup (label_is ''Taille'') = None \<or> find_first soup (label_is ''Poids'') = None"
  shows "\<exists>e. parse_html soup = Inl e \<and>
          (\<forall>(w::world) pokemon. web w (ustr POKEPEDIA @ pokemon) = Inr (Response 200 soup) \<longrightarrow>
             csvfile (write_row pokemon w) = csvfile w \<and>
             console (write_row pokemon w) = console w @ [Fetching pokemon, Error_writing pokemon e] \<and>
             (\<forall>rest. csvfile (write_rows (pokemon # rest) w) = csvfile w @ written (web w) rest) \<and>
             fst (get_pokemon pokemon w) = Inl e)"
proof -
  have "labelled_cell soup ''Taille'' = Inl AttributeError \<or> labelled_cell soup ''Poids'' = Inl AttributeError"
    using assms by (auto simp: labelled_cell_def)
  then have "\<forall>r. parse_html soup \<noteq> Inr r"
    using parse_html_cells [of soup] by auto
  then obtain e where p: "parse_html soup = Inl e"
    by (cases "parse_html soup") auto
  have "\<forall>(w::world) pokemon. web w (ustr POKEPEDIA @ pokemon) = Inr (Response 200 soup) \<longrightarrow>
             csvfile (write_row pokemon w) = csvfile w \<and>
             console (write_row pokemon w) = console w @ [Fetching pokemon, Error_writing pokemon e] \<and>
             (\<forall>rest. csvfile (write_rows (pokemon # rest) w) = csvfile w @ written (web w) rest) \<and>
             fst (get_pokemon pokemon w) = Inl e"
  proof (intro allI impI)
    fix w :: world and pokemon
    assume f: "web w (ustr POKEPEDIA @ pokemon) = Inr (Response 200 soup)"
    have 1: "csvfile (write_row pokemon w) = csvfile w"
      by (simp add: write_row_def get_html_pokemon_eq f p print_def)
    have 2: "console (write_row pokemon w) = console w @ [Fetching pokemon, Error_writing pokemon e]"
      by (simp add: write_row_def get_html_pokemon_eq f p print_def)
    have 3: "\<forall>rest. csvfile (write_rows (pokemon # rest) w) = csvfile w @ written (web w) rest"
      by (simp add: write_rows_csvfile write_row_web 1)
    have 4: "fst (get_pokemon pokemon w) = Inl e"
      by (simp add: get_pokemon_def get_html_pokemon_eq f p)
    from 1 2 3 4 show "csvfile (write_row pokemon w) = csvfile w \<and>
             console (write_row pokemon w) = console w @ [Fetching pokemon, Error_writing pokemon e] \<and>
             (\<forall>rest. csvfile (write_rows (pokemon # rest) w) = csvfile w @ written (web w) rest) \<and>
             fst (get_pokemon pokemon w) = Inl e"
      by (intro conjI)
  qed
  with p show ?thesis by blast
qed

text \<open>A page without the height, one without the weight, and the loop over two names.\<close>

theorem missing_height_or_weight_label_witness:
  "find_first no_height_page (label_is ''Taille'') = None \<and>
   parse_html no_height_page = Inl AttributeError \<and>
   find_first no_weight_page (label_is ''Poids'') = None \<and>
   (\<exists>e. parse_html no_weight_page = Inl e) \<and>
   csvfile (write_row (ustr ''Sans_taille'') example_world) = [] \<and>
   console (write_row (ustr ''Sans_taille'') example_world)
     = [Fetching (ustr ''Sans_taille''), Error_writing (ustr ''Sans_taille'') AttributeError] \<and>
   map (\<lambda>line. case line of Header cols \<Rightarrow> ''name'' | Row info d \<Rightarrow> name info)
     (csvfile (write_rows [ustr ''Sans_taille'', ustr ''Dracaufeu''] example_world)) = [''Dracaufeu''] \<and>
   fst (get_pokemon (ustr ''Sans_taille'') example_world) = Inl AttributeError"
proof -
  have w: "web example_world = example_web" "csvfile example_world = []" "console example_world = []"
    by (simp_all add: example_world_def)
  have a: "find_first no_height_page (label_is ''Taille'') = None" by code_simp
  have b: "find_first no_weight_page (label_is ''Poids'') = None" by code_simp
  have p: "parse_html no_height_page = Inl AttributeError" by code_simp
  have f: "web example_world (ustr POKEPEDIA @ ustr ''Sans_taille'') = Inr (Response 200 no_height_page)"
    unfolding w
    by (simp add: ustr_append example_web_def ustr_eq POKEPEDIA_def GENERTAIONS_URL_def ordinal_url_def)
  from example_rows(4) obtain d4 where
    "row_for example_web (ustr ''Dracaufeu'') = Inr (Row \<lparr>name = ''Dracaufeu'', types = ''Feu-Vol'', height = ''1,7 m'', weight = ''90,5 kg'', stats = [(''PV'', 78), (''Attaque'', 84)]\<rparr> d4)"
    by blast
  then have d: "map (\<lambda>line. case line of Header cols \<Rightarrow> ''name'' | Row info d \<Rightarrow> name info)
      (written example_web [ustr ''Dracaufeu'']) = [''Dracaufeu'']"
    by (simp add: written_def)
  from missing_height_or_weight_label [of no_weight_page] b
  have 1: "\<exists>e. parse_html no_weight_page = Inl e" by blast
  from missing_height_or_weight_label [of no_height_page] a
  obtain e where e: "parse_html no_height_page = Inl e"
    and r: "\<forall>(w::world) pokemon. web w (ustr POKEPEDIA @ pokemon) = Inr (Response 200 no_height_page) \<longrightarrow>
             csvfile (write_row pokemon w) = csvfile w \<and>
             console (write_row pokemon w) = console w @ [Fetching pokemon, Error_writing pokemon e] \<and>
             (\<forall>rest. csvfile (write_rows (pokemon # rest) w) = csvfile w @ written (web w) rest) \<and>
             fst (get_pokemon pokemon w) = Inl e"
    by blast
  from e p have ee: "e = AttributeError" by simp
  from r f have s: "csvfile (write_row (ustr ''Sans_taille'') example_world) = csvfile example_world \<and>
             console (write_row (ustr ''Sans_taille'') example_world)
               = console example_world @ [Fetching (ustr ''Sans_taille''), Error_writing (ustr ''Sans_taille'') e] \<and>
             (\<forall>rest. csvfile (write_rows (ustr ''Sans_taille'' # rest) example_world)
                = csvfile example_world @ written (web example_world) rest) \<and>
             fst (get_pokemon (ustr ''Sans_taille'') example_world) = Inl e"
    by blast
  from s have 2: "csvfile (write_row (ustr ''Sans_taille'') example_world) = []" unfolding w by simp
  from s have 3: "console (write_row (ustr ''Sans_taille'') example_world)
     = [Fetching (ustr ''Sans_taille''), Error_writing (ustr ''Sans_taille'') AttributeError]"
    unfolding w ee by simp
  from s have "\<forall>rest. csvfile (write_rows (ustr ''Sans_taille'' # rest) example_world)
                = csvfile example_world @ written (web example_world) rest"
    by blast
  then have "csvfile (write_rows (ustr ''Sans_taille'' # [ustr ''Dracaufeu'']) example_world)
                = csvfile example_world @ written (web example_world) [ustr ''Dracaufeu'']"
    by (rule spec)
  then have "csvfile (write_rows [ustr ''Sans_taille'', ustr ''Dracaufeu''] example_world)
     = written example_web [ustr ''Dracaufeu'']" unfolding w by (simp only: append_Nil)
  then have 4: "map (\<lambda>line. case line of Header cols \<Rightarrow> ''name'' | Row info d \<Rightarrow> name info)
     (csvfile (write_rows [ustr ''Sans_taille'', ustr ''Dracaufeu''] example_world)) = [''Dracaufeu'']"
    using d by simp
  from s have 5: "fst (get_pokemon (ustr ''Sans_taille'') example_world) = Inl AttributeError"
    unfolding ee by simp
  from a p b 1 2 3 4 5 show ?thesis by (intro conjI)
qed

end
